theory Spec2Isabelle
  imports Complex_Main
begin

section \<open>Python failures and values\<close>

text \<open>
  The networks of \<^verbatim>\<open>carpet/lista_analysis.py\<close> and the initialiser of
  \<^verbatim>\<open>carpet/utils.py\<close> are embedded as functions that return either the exception
  raised (\<open>Inl\<close>) or the value returned (\<open>Inr\<close>). Floating-point numbers are read
  as real numbers: rounding, infinities and NaN are outside the embedding.
\<close>

datatype pyerr =
    TypeError string
  | ValueError string
  | KeyError string
  | IndexError string
  | AttributeError string
  | RuntimeError string
  | NotImplementedError string

definition bind_res :: "pyerr + 'a \<Rightarrow> ('a \<Rightarrow> pyerr + 'b) \<Rightarrow> pyerr + 'b" where
  "bind_res m f = (case m of Inl e \<Rightarrow> Inl e | Inr v \<Rightarrow> f v)"

section \<open>Two-dimensional tensors\<close>

text \<open>
  A tensor carries its shape, as \<^verbatim>\<open>x.shape\<close> does, and its entries row by row.
  The operations below are the primitives of the tensor library the code calls
  (\<^verbatim>\<open>matmul\<close>, \<^verbatim>\<open>t\<close>, the arithmetic operators with broadcasting,
  \<^verbatim>\<open>cumsum\<close>, \<^verbatim>\<open>sign\<close>, \<^verbatim>\<open>cat\<close>, \<^verbatim>\<open>zeros\<close>); each comes as a
  pure function on the entries and, where the library checks shapes, as a checked function
  that raises \<^verbatim>\<open>RuntimeError\<close> on a mismatch.
\<close>

record tensor =
  nrows :: nat
  ncols :: nat
  rows :: "real list list"

definition wf_tensor :: "tensor \<Rightarrow> bool" where
  "wf_tensor t = (length (rows t) = nrows t \<and> list_all (\<lambda>r. length r = ncols t) (rows t))"

definition dot :: "real list \<Rightarrow> real list \<Rightarrow> real" where
  "dot r c = sum_list (map2 (*) r c)"

definition columns :: "tensor \<Rightarrow> real list list" where
  "columns t = map (\<lambda>j. map (\<lambda>r. r ! j) (rows t)) [0..<ncols t]"

definition tr :: "tensor \<Rightarrow> tensor" where
  "tr a = \<lparr>nrows = ncols a, ncols = nrows a, rows = columns a\<rparr>"

definition mm :: "tensor \<Rightarrow> tensor \<Rightarrow> tensor" where
  "mm a b = \<lparr>nrows = nrows a, ncols = ncols b,
             rows = map (\<lambda>r. map (dot r) (columns b)) (rows a)\<rparr>"

definition matmul :: "tensor \<Rightarrow> tensor \<Rightarrow> pyerr + tensor" where
  "matmul a b =
     (if ncols a = nrows b then Inr (mm a b)
      else Inl (RuntimeError ''mat1 and mat2 shapes cannot be multiplied''))"

definition smul :: "real \<Rightarrow> tensor \<Rightarrow> tensor" where
  "smul c a = a\<lparr>rows := map (map (\<lambda>e. c * e)) (rows a)\<rparr>"

definition sdiv :: "tensor \<Rightarrow> real \<Rightarrow> tensor" where
  "sdiv a c = a\<lparr>rows := map (map (\<lambda>e. e / c)) (rows a)\<rparr>"

definition sign :: "tensor \<Rightarrow> tensor" where
  "sign a = a\<lparr>rows := map (map sgn) (rows a)\<rparr>"

text \<open>
  Broadcasting of two sizes along one dimension: equal sizes, or one of them is 1.
\<close>

definition bdim :: "nat \<Rightarrow> nat \<Rightarrow> nat option" where
  "bdim m n = (if m = n then Some m else if m = 1 then Some n
               else if n = 1 then Some m else None)"

definition expand :: "tensor \<Rightarrow> nat \<Rightarrow> nat \<Rightarrow> real list list" where
  "expand a n m =
     map (\<lambda>r. if ncols a = m then r else replicate m (hd r))
         (if nrows a = n then rows a else replicate n (hd (rows a)))"

definition zipw :: "(real \<Rightarrow> real \<Rightarrow> real) \<Rightarrow> tensor \<Rightarrow> tensor \<Rightarrow> tensor" where
  "zipw f a b = \<lparr>nrows = nrows a, ncols = ncols a, rows = map2 (map2 f) (rows a) (rows b)\<rparr>"

definition ewise :: "(real \<Rightarrow> real \<Rightarrow> real) \<Rightarrow> tensor \<Rightarrow> tensor \<Rightarrow> pyerr + tensor" where
  "ewise f a b =
     (case (bdim (nrows a) (nrows b), bdim (ncols a) (ncols b)) of
        (Some n, Some m) \<Rightarrow>
          Inr \<lparr>nrows = n, ncols = m, rows = map2 (map2 f) (expand a n m) (expand b n m)\<rparr>
      | _ \<Rightarrow> Inl (RuntimeError ''The size of tensor a must match the size of tensor b''))"

definition tadd :: "tensor \<Rightarrow> tensor \<Rightarrow> pyerr + tensor" where
  "tadd = ewise (+)"

definition tsub :: "tensor \<Rightarrow> tensor \<Rightarrow> pyerr + tensor" where
  "tsub = ewise (-)"

fun cumsum_from :: "real \<Rightarrow> real list \<Rightarrow> real list" where
  "cumsum_from s [] = []"
| "cumsum_from s (e # es) = (s + e) # cumsum_from (s + e) es"

definition cumsum :: "tensor \<Rightarrow> tensor" where
  "cumsum a = a\<lparr>rows := map (cumsum_from 0) (rows a)\<rparr>"

text \<open>
  \<^verbatim>\<open>torch.zeros((n, m))\<close> takes Python integers: a negative size raises.
\<close>

definition zeros_t :: "nat \<Rightarrow> nat \<Rightarrow> tensor" where
  "zeros_t n m = \<lparr>nrows = n, ncols = m, rows = replicate n (replicate m 0)\<rparr>"

definition zeros :: "int \<Rightarrow> int \<Rightarrow> pyerr + tensor" where
  "zeros n m =
     (if n < 0 \<or> m < 0
      then Inl (RuntimeError ''Trying to create tensor with negative dimension'')
      else Inr (zeros_t (nat n) (nat m)))"

text \<open>\<^verbatim>\<open>u[:, 0][:, None]\<close>: the first column, kept as a column.\<close>

definition first_col :: "tensor \<Rightarrow> tensor" where
  "first_col u = \<lparr>nrows = nrows u, ncols = 1, rows = map (\<lambda>r. [r ! 0]) (rows u)\<rparr>"

definition first_column :: "tensor \<Rightarrow> pyerr + tensor" where
  "first_column u =
     (if ncols u = 0
      then Inl (IndexError ''index 0 is out of bounds for dimension 1 with size 0'')
      else Inr (first_col u))"

text \<open>\<^verbatim>\<open>torch.cat([a, b], axis=1)\<close>: side by side, the row counts must agree.\<close>

definition hcat :: "tensor \<Rightarrow> tensor \<Rightarrow> tensor" where
  "hcat a b = \<lparr>nrows = nrows a, ncols = ncols a + ncols b, rows = map2 (@) (rows a) (rows b)\<rparr>"

definition cat1 :: "tensor \<Rightarrow> tensor \<Rightarrow> pyerr + tensor" where
  "cat1 a b =
     (if nrows a = nrows b then Inr (hcat a b)
      else Inl (RuntimeError ''Sizes of tensors must match except in dimension 1''))"

text \<open>\<^verbatim>\<open>np.eye(n)\<close>, and the first-order difference operator every constructor builds:
  \<^verbatim>\<open>(np.eye(n, k=-1) - np.eye(n, k=0))[:, :-1]\<close>, of shape \<open>n \<times> (n - 1)\<close>.\<close>

definition eye :: "nat \<Rightarrow> tensor" where
  "eye n = \<lparr>nrows = n, ncols = n,
            rows = map (\<lambda>i. map (\<lambda>j. if i = j then 1 else 0) [0..<n]) [0..<n]\<rparr>"

definition diff_operator :: "nat \<Rightarrow> tensor" where
  "diff_operator n =
     \<lparr>nrows = n, ncols = n - 1,
      rows = map (\<lambda>i. map (\<lambda>j. (if i = Suc j then 1 else 0) - (if i = j then 1 else 0))
                         [0..<n - 1]) [0..<n]\<rparr>"

section \<open>Strings built by the code\<close>

definition digit :: "nat \<Rightarrow> char" where
  "digit d = ''0123456789'' ! d"

function str_nat :: "nat \<Rightarrow> string" where
  "str_nat n = (if n < 10 then [digit n] else str_nat (n div 10) @ [digit (n mod 10)])"
  by pat_completeness auto
termination
  by (relation "measure id") auto

declare str_nat.simps [simp del]

definition quoted :: "string \<Rightarrow> string" where
  "quoted s = [CHR 0x27] @ s @ [CHR 0x27]"

fun join_with :: "string \<Rightarrow> string list \<Rightarrow> string" where
  "join_with sep [] = []"
| "join_with sep [s] = s"
| "join_with sep (s # t # ss) = s @ sep @ join_with sep (t # ss)"

text \<open>The text of a list of plain strings inside an f-string, as \<^verbatim>\<open>['a', 'b']\<close>.\<close>

definition repr_list :: "string list \<Rightarrow> string" where
  "repr_list ss = ''['' @ join_with '', '' (map quoted ss) @ '']''"

text \<open>The key \<^verbatim>\<open>f'layer-{layer_id}'\<close> of a layer in the parameter store.\<close>

definition layer_key :: "nat \<Rightarrow> string" where
  "layer_key layer_id = ''layer-'' @ str_nat layer_id"

section \<open>Parameters and dictionaries\<close>

text \<open>
  A parameter is a scalar (a zero-dimensional array such as \<^verbatim>\<open>np.array(.5)\<close>) or a
  matrix. A group of parameters is a dictionary from names to parameters, and the
  parameter store \<^verbatim>\<open>parameter_groups\<close> maps group names to groups.
\<close>

datatype pval = Scalar real | Matrix tensor

type_synonym params = "string \<rightharpoonup> pval"
type_synonym groups = "string \<rightharpoonup> params"

definition get_item :: "(string \<rightharpoonup> 'v) \<Rightarrow> string \<Rightarrow> pyerr + 'v" where
  "get_item d k = (case d k of None \<Rightarrow> Inl (KeyError k) | Some v \<Rightarrow> Inr v)"

definition get_default :: "(string \<rightharpoonup> 'v) \<Rightarrow> string \<Rightarrow> 'v \<Rightarrow> 'v" where
  "get_default d k dflt = (case d k of None \<Rightarrow> dflt | Some v \<Rightarrow> v)"

text \<open>
  A parameter used as a matrix operand or as a scalar factor. The initialisers create each
  parameter with the kind its layer expects; a parameter of the other kind makes the
  tensor operation fail.
\<close>

definition as_matrix :: "pval \<Rightarrow> pyerr + tensor" where
  "as_matrix p =
     (case p of Matrix t \<Rightarrow> Inr t
              | Scalar _ \<Rightarrow> Inl (RuntimeError ''both arguments to matmul need to be at least 1D''))"

definition as_scalar :: "pval \<Rightarrow> pyerr + real" where
  "as_scalar p =
     (case p of Scalar r \<Rightarrow> Inr r
              | Matrix _ \<Rightarrow> Inl (TypeError ''a scalar parameter is expected''))"

section \<open>The collaborators outside the two source files\<close>

text \<open>
  \<^verbatim>\<open>torch.pinverse\<close> (the Moore-Penrose pseudo-inverse), the spectral norm
  \<^verbatim>\<open>np.linalg.norm(., ord=2)\<close>, the soft-thresholding kernel
  \<^verbatim>\<open>pseudo_soft_th_tensor\<close>, the taut-string operator \<^verbatim>\<open>ProxTV_l1.apply\<close>, the
  nested network \<^verbatim>\<open>ListaLASSO\<close> (its constructor, its call and its parameter store)
  and the helpers \<^verbatim>\<open>ravel_group_params\<close> and \<^verbatim>\<open>unravel_group_params\<close> are not
  defined in the sources under study; every function below takes them as the fields of
  one parameter.
\<close>

record lasso_args =
  lasso_A :: tensor
  lasso_n_layers :: nat
  lasso_learn_th :: bool
  lasso_name :: string
  lasso_initial_parameters :: "groups option"
  lasso_device :: "string option"

record lasso_net =
  built_from :: lasso_args
  lasso_parameter_groups :: groups

record extern =
  pinverse :: "tensor \<Rightarrow> tensor"
  norm2 :: "tensor \<Rightarrow> real"
  pseudo_soft_th_tensor :: "tensor \<Rightarrow> real \<Rightarrow> real \<Rightarrow> pyerr + tensor"
  ProxTV_l1 :: "tensor \<Rightarrow> real \<Rightarrow> pyerr + tensor"
  ListaLASSO :: "lasso_args \<Rightarrow> pyerr + lasso_net"
  lasso_call :: "lasso_net \<Rightarrow> tensor \<Rightarrow> real \<Rightarrow> pyerr + tensor"
  ravel_group_params :: "groups \<Rightarrow> params"
  unravel_group_params :: "params \<Rightarrow> groups"

text \<open>
  Modelled from the spec: \<^verbatim>\<open>check_tensor\<close> of the absent module
  \<^verbatim>\<open>carpet.checks\<close> casts an array to a tensor on a device. On a tensor of the
  embedding it changes nothing and is left out; \<open>check_tensor\<close> below is its use on an
  argument that may still be \<^verbatim>\<open>None\<close>, where the cast fails.
\<close>

definition check_tensor :: "tensor option \<Rightarrow> pyerr + tensor" where
  "check_tensor a =
     (case a of None \<Rightarrow> Inl (TypeError ''Invalid type NoneType in check_tensor'')
              | Some t \<Rightarrow> Inr t)"

section \<open>The variable initialiser (utils.py)\<close>

definition v_to_u ::
  "extern \<Rightarrow> tensor \<Rightarrow> tensor \<Rightarrow> real \<Rightarrow> tensor option \<Rightarrow> tensor option \<Rightarrow>
   tensor option \<Rightarrow> tensor option \<Rightarrow> string option \<Rightarrow> pyerr + tensor" where
  "v_to_u ext v x lbda A D inv_A Psi_A device =
     bind_res
       (if inv_A = None \<and> Psi_A = None then
          (case (A, D) of
             (Some A', Some D') \<Rightarrow>
               bind_res (matmul (pinverse ext A') D')
                 (\<lambda>Psi. Inr (Some (pinverse ext A'), Some Psi))
           | _ \<Rightarrow> Inl (ValueError ''If inv_A and Psi_A are None, A and D should be given''))
        else Inr (inv_A, Psi_A))
       (\<lambda>(inv_A, Psi_A).
          bind_res (check_tensor inv_A) (\<lambda>inv_A.
          bind_res (check_tensor Psi_A) (\<lambda>Psi_A.
          bind_res (matmul v (tr Psi_A)) (\<lambda>vPsi.
          bind_res (tsub x (smul lbda vPsi)) (\<lambda>d.
          matmul d inv_A)))))"

text \<open>\<^verbatim>\<open>np.atleast_2d\<close> leaves a two-dimensional array as it is.\<close>

definition atleast_2d :: "tensor \<Rightarrow> tensor" where
  "atleast_2d t = t"

definition init_vuz ::
  "extern \<Rightarrow> tensor \<Rightarrow> tensor \<Rightarrow> tensor \<Rightarrow> real \<Rightarrow> tensor option \<Rightarrow> string option \<Rightarrow> bool \<Rightarrow>
   pyerr + (tensor \<times> tensor \<times> tensor)" where
  "init_vuz ext A D x lbda v0 device force_numpy =
     (let n_samples = nrows x; n_atoms = nrows A in
      bind_res (case v0 of None \<Rightarrow> zeros (int n_samples) (int n_atoms - 1) | Some v \<Rightarrow> Inr v) (\<lambda>v0.
      bind_res (v_to_u ext v0 x lbda (Some A) (Some D) None None device) (\<lambda>u0.
      bind_res (first_column u0) (\<lambda>c.
      bind_res (matmul u0 D) (\<lambda>uD.
      bind_res (cat1 c uD) (\<lambda>z0.
      if force_numpy then Inr (atleast_2d v0, atleast_2d u0, atleast_2d z0)
      else Inr (v0, u0, z0)))))))"

text \<open>
  The closed form the initialiser is documented to compute, written with the pure tensor
  operations: \<open>\<Psi> = A\<^sup>+ D\<close>, \<open>u = (x - \<lambda> v \<Psi>\<^sup>T) A\<^sup>+\<close> and
  \<open>z = [u[:, 0], u D]\<close>.
\<close>

definition Psi_closed :: "extern \<Rightarrow> tensor \<Rightarrow> tensor \<Rightarrow> tensor" where
  "Psi_closed ext a d = mm (pinverse ext a) d"

definition u_closed :: "extern \<Rightarrow> tensor \<Rightarrow> tensor \<Rightarrow> tensor \<Rightarrow> real \<Rightarrow> tensor \<Rightarrow> tensor" where
  "u_closed ext a d x lbda v =
     mm (zipw (-) x (smul lbda (mm v (tr (Psi_closed ext a d))))) (pinverse ext a)"

definition z_closed :: "tensor \<Rightarrow> tensor \<Rightarrow> tensor" where
  "z_closed u d = hcat (first_col u) (mm u d)"

definition v_default :: "tensor \<Rightarrow> tensor \<Rightarrow> tensor option \<Rightarrow> tensor" where
  "v_default a x v0 = (case v0 of None \<Rightarrow> zeros_t (nrows x) (nrows a - 1) | Some v \<Rightarrow> v)"

section \<open>Calling the initialiser as Python does\<close>

text \<open>
  The networks call \<^verbatim>\<open>init_vuz\<close> with positional and keyword arguments. Python
  binds them to the parameters of the signature before the body runs: the positional
  arguments fill the parameters in order, each keyword must name a parameter that is still
  free, no more positional arguments than parameters are accepted, and every parameter
  without a default must have received a value.
\<close>

datatype pyval = PNone | PBool bool | PNum real | PStr string | PTensor tensor

record pysig =
  fname :: string
  required :: "string list"
  optional :: "(string \<times> pyval) list"

fun bind_keywords ::
  "string \<Rightarrow> string list \<Rightarrow> (string \<rightharpoonup> pyval) \<Rightarrow> (string \<times> pyval) list \<Rightarrow>
   pyerr + (string \<rightharpoonup> pyval)" where
  "bind_keywords f ps b [] = Inr b"
| "bind_keywords f ps b ((k, v) # kws) =
     (if k \<notin> set ps
      then Inl (TypeError (f @ ''() got an unexpected keyword argument '' @ quoted k))
      else if b k \<noteq> None
      then Inl (TypeError (f @ ''() got multiple values for argument '' @ quoted k))
      else bind_keywords f ps (b(k \<mapsto> v)) kws)"

definition missing_message :: "string \<Rightarrow> string list \<Rightarrow> string" where
  "missing_message f ms =
     f @ ''() missing '' @ str_nat (length ms) @ '' required positional argument''
       @ (if length ms = 1 then '''' else ''s'') @ '': ''
       @ (if length ms \<le> 2 then join_with '' and '' (map quoted ms)
          else join_with '', '' (map quoted (butlast ms)) @ '', and '' @ quoted (last ms))"

definition takes_message :: "pysig \<Rightarrow> nat \<Rightarrow> string" where
  "takes_message sg given =
     (let total = length (required sg) + length (optional sg) in
      fname sg @ ''() takes ''
        @ (if optional sg = [] then str_nat total
           else ''from '' @ str_nat (length (required sg)) @ '' to '' @ str_nat total)
        @ '' positional argument'' @ (if total = 1 then '''' else ''s'')
        @ '' but '' @ str_nat given @ (if given = 1 then '' was'' else '' were'') @ '' given'')"

definition bind_args ::
  "pysig \<Rightarrow> pyval list \<Rightarrow> (string \<times> pyval) list \<Rightarrow> pyerr + (string \<rightharpoonup> pyval)" where
  "bind_args sg args kwargs =
     (let ps = required sg @ map fst (optional sg) in
      bind_res (bind_keywords (fname sg) ps (map_of (zip ps args)) kwargs) (\<lambda>b.
      if length ps < length args
      then Inl (TypeError (takes_message sg (length args)))
      else if filter (\<lambda>p. b p = None) (required sg) \<noteq> []
      then Inl (TypeError (missing_message (fname sg) (filter (\<lambda>p. b p = None) (required sg))))
      else Inr (\<lambda>p. case b p of Some v \<Rightarrow> Some v | None \<Rightarrow> map_of (optional sg) p)))"

text \<open>\<^verbatim>\<open>def init_vuz(A, D, x, lbda, v0=None, device='cpu', force_numpy=False)\<close>\<close>

definition init_vuz_sig :: pysig where
  "init_vuz_sig =
     \<lparr>fname = ''init_vuz'', required = [''A'', ''D'', ''x'', ''lbda''],
      optional = [(''v0'', PNone), (''device'', PStr ''cpu''), (''force_numpy'', PBool False)]\<rparr>"

text \<open>
  Once the arguments are bound the body runs. Its first statements cast \<^verbatim>\<open>A\<close>,
  \<^verbatim>\<open>D\<close> and \<^verbatim>\<open>x\<close> to tensors and \<^verbatim>\<open>lbda\<close> to a float; the values the
  networks pass are tensors, numbers, device names and \<^verbatim>\<open>None\<close>, and a value of
  another kind makes the cast fail.
\<close>

definition arg_tensor :: "pyval option \<Rightarrow> pyerr + tensor" where
  "arg_tensor v =
     (case v of Some (PTensor t) \<Rightarrow> Inr t
              | _ \<Rightarrow> Inl (TypeError ''Invalid type in check_tensor''))"

definition arg_float :: "pyval option \<Rightarrow> pyerr + real" where
  "arg_float v =
     (case v of Some (PNum r) \<Rightarrow> Inr r
              | Some (PBool b) \<Rightarrow> Inr (if b then 1 else 0)
              | _ \<Rightarrow> Inl (TypeError ''float() argument must be a string or a number''))"

definition arg_opt_tensor :: "pyval option \<Rightarrow> pyerr + tensor option" where
  "arg_opt_tensor v =
     (case v of Some PNone \<Rightarrow> Inr None
              | Some (PTensor t) \<Rightarrow> Inr (Some t)
              | _ \<Rightarrow> Inl (TypeError ''Invalid type in check_tensor''))"

definition arg_device :: "pyval option \<Rightarrow> string option" where
  "arg_device v = (case v of Some (PStr s) \<Rightarrow> Some s | _ \<Rightarrow> None)"

definition arg_truth :: "pyval option \<Rightarrow> bool" where
  "arg_truth v =
     (case v of Some (PBool b) \<Rightarrow> b | Some (PNum r) \<Rightarrow> r \<noteq> 0 | Some (PStr s) \<Rightarrow> s \<noteq> []
              | Some (PTensor t) \<Rightarrow> True | _ \<Rightarrow> False)"

definition call_init_vuz ::
  "extern \<Rightarrow> pyval list \<Rightarrow> (string \<times> pyval) list \<Rightarrow> pyerr + (tensor \<times> tensor \<times> tensor)" where
  "call_init_vuz ext args kwargs =
     bind_res (bind_args init_vuz_sig args kwargs) (\<lambda>b.
     bind_res (arg_tensor (b ''A'')) (\<lambda>A.
     bind_res (arg_tensor (b ''D'')) (\<lambda>D.
     bind_res (arg_tensor (b ''x'')) (\<lambda>x.
     bind_res (arg_float (b ''lbda'')) (\<lambda>lbda.
     bind_res (arg_opt_tensor (b ''v0'')) (\<lambda>v0.
     init_vuz ext A D x lbda v0 (arg_device (b ''device'')) (arg_truth (b ''force_numpy''))))))))"

definition device_arg :: "string option \<Rightarrow> pyval" where
  "device_arg dv = (case dv of None \<Rightarrow> PNone | Some s \<Rightarrow> PStr s)"

section \<open>The networks (lista_analysis.py)\<close>

subsection \<open>Objects\<close>

text \<open>
  An object is the record of its attributes. \<open>lista_base\<close> holds the attributes the
  base class \<^verbatim>\<open>ListaBase\<close> keeps; each class adds the attributes its constructor
  assigns. \<^verbatim>\<open>self.A_\<close>, \<^verbatim>\<open>self.D_\<close>, \<^verbatim>\<open>self.inv_A_\<close> and \<^verbatim>\<open>self.l_\<close> are the
  fields \<open>A_t\<close>, \<open>D_t\<close>, \<open>inv_A_t\<close> and \<open>l_lip\<close>.
\<close>

datatype prox_attr = Shared lasso_net | PerLayer "nat \<rightharpoonup> lasso_net"

record lista_base =
  n_layers :: nat
  learn_th :: bool
  device :: "string option"
  parameter_groups :: groups
  force_learn_groups :: "string list"

record analysis = lista_base +
  use_moreau :: bool
  A :: tensor
  D :: tensor
  A_t :: tensor
  inv_A_t :: tensor

record lpgd = analysis +
  I_k :: tensor
  l_lip :: real

record lista_tv = lpgd +
  learn_prox :: string
  n_inner_layers :: nat
  prox_tv :: "prox_attr option"

record subgrad = analysis +
  D_t :: tensor

record step_condat_vu = subgrad +
  l_A :: real
  l_D :: real
  rho :: real

record coupled_condat_vu = step_condat_vu +
  sigma :: real
  tau :: real

text \<open>The arguments a constructor hands to \<^verbatim>\<open>super().__init__\<close>.\<close>

record super_args =
  sa_n_layers :: nat
  sa_learn_th :: bool
  sa_max_iter :: nat
  sa_net_solver_type :: string
  sa_initial_parameters :: "groups option"
  sa_name :: string
  sa_verbose :: nat
  sa_device :: "string option"

definition LEARN_PROX_PER_LAYER :: string where
  "LEARN_PROX_PER_LAYER = ''per-layer''"

definition LEARN_PROX_GLOBAL :: string where
  "LEARN_PROX_GLOBAL = ''global''"

definition LEARN_PROX_FALSE :: string where
  "LEARN_PROX_FALSE = ''none''"

definition ALL_LEARN_PROX :: "string list" where
  "ALL_LEARN_PROX = [LEARN_PROX_FALSE, LEARN_PROX_GLOBAL, LEARN_PROX_PER_LAYER]"

subsection \<open>What the base class provides\<close>

text \<open>
  Modelled from the spec: \<^verbatim>\<open>ListaBase.check_output_layer\<close> is not among the sources.
  The spec gives its contract: the output layer defaults to \<^verbatim>\<open>n_layers\<close>, and a value
  above \<^verbatim>\<open>n_layers\<close> is an invalid argument.
\<close>

definition check_output_layer :: "'a lista_base_scheme \<Rightarrow> int option \<Rightarrow> pyerr + int" where
  "check_output_layer self output_layer =
     (case output_layer of
        None \<Rightarrow> Inr (int (n_layers self))
      | Some k \<Rightarrow>
          if int (n_layers self) < k
          then Inl (ValueError ''output_layer should be at most n_layers'')
          else Inr k)"

text \<open>
  Modelled from the spec: \<^verbatim>\<open>ListaBase._register_parameters\<close> is not among the sources.
  By the spec it exposes a group of parameters as a named group of the parameter store.
\<close>

definition register_parameters :: "'a lista_base_scheme \<Rightarrow> params \<Rightarrow> string \<Rightarrow> 'a lista_base_scheme" where
  "register_parameters self ps group_name =
     self\<lparr>parameter_groups := (parameter_groups self)(group_name \<mapsto> ps)\<rparr>"

text \<open>A \<^verbatim>\<open>for\<close> loop over a list that stops at the first exception.\<close>

fun for_each :: "('i \<Rightarrow> 's \<Rightarrow> pyerr + 's) \<Rightarrow> 'i list \<Rightarrow> 's \<Rightarrow> pyerr + 's" where
  "for_each body [] s = Inr s"
| "for_each body (i # is) s = bind_res (body i s) (for_each body is)"

text \<open>\<^verbatim>\<open>range(k)\<close> for a Python integer: empty when \<open>k \<le> 0\<close>.\<close>

definition range_list :: "int \<Rightarrow> nat list" where
  "range_list k = [0..<nat k]"

subsection \<open>ListaTV\<close>

text \<open>
  \<^verbatim>\<open>__init__(self, A, n_layers, initial_parameters, learn_th, learn_prox, use_moreau,
  n_inner_layers, max_iter, net_solver_type, name, verbose, device)\<close>. Every constructor
  comes in two parts: the attributes it assigns to \<^verbatim>\<open>self\<close>, and the constructor
  proper, which returns the lines it printed and the outcome of \<^verbatim>\<open>super().__init__\<close>,
  the constructor of the base class, which is a parameter here.
\<close>

definition ListaTV_attrs :: "extern \<Rightarrow> lista_tv \<Rightarrow> tensor \<Rightarrow> string \<Rightarrow> bool \<Rightarrow> nat \<Rightarrow> lista_tv" where
  "ListaTV_attrs ext self a lp um nil =
     (let self1 = self\<lparr>learn_prox := lp, use_moreau := um, n_inner_layers := nil\<rparr>;
          self2 = (if learn_prox self1 = LEARN_PROX_PER_LAYER
                   then self1\<lparr>prox_tv := Some (PerLayer Map.empty)\<rparr> else self1);
          n_atoms = nrows a;
          self3 = self2\<lparr>A := a, I_k := eye n_atoms, D := diff_operator n_atoms\<rparr>;
          self4 = self3\<lparr>A_t := A self3\<rparr>
      in self4\<lparr>inv_A_t := pinverse ext (A_t self4), l_lip := (norm2 ext (A self4))\<^sup>2\<rparr>)"

definition ListaTV_init ::
  "extern \<Rightarrow> (super_args \<Rightarrow> lista_tv \<Rightarrow> pyerr + lista_tv) \<Rightarrow> lista_tv \<Rightarrow> tensor \<Rightarrow> nat \<Rightarrow>
   groups option \<Rightarrow> bool \<Rightarrow> string \<Rightarrow> bool \<Rightarrow> nat \<Rightarrow> nat \<Rightarrow> string \<Rightarrow> string option \<Rightarrow> nat \<Rightarrow>
   string option \<Rightarrow> string list \<times> (pyerr + lista_tv)" where
  "ListaTV_init ext super_init self a nl ip lth lp um nil mi nst nm vb dv =
     (let self' = ListaTV_attrs ext self a lp um nil;
          name = (case nm of None \<Rightarrow> ''LPGD - Lista['' @ lp @ ''-'' @ str_nat nil @ '']''
                           | Some n \<Rightarrow> n)
      in ([], super_init \<lparr>sa_n_layers = nl, sa_learn_th = lth, sa_max_iter = mi,
                          sa_net_solver_type = nst, sa_initial_parameters = ip, sa_name = name,
                          sa_verbose = vb, sa_device = dv\<rparr> self'))"

definition strip_prox :: "string \<Rightarrow> string option" where
  "strip_prox k = (if take 5 k = ''prox:'' then Some (drop 5 k) else None)"

text \<open>\<^verbatim>\<open>for k, p in raveled.items(): layer_params[f'prox:{k}'] = p\<close>\<close>

definition add_prefixed :: "params \<Rightarrow> params \<Rightarrow> params" where
  "add_prefixed raveled layer_params =
     (\<lambda>key. case strip_prox key of
               None \<Rightarrow> layer_params key
             | Some k \<Rightarrow> (case raveled k of None \<Rightarrow> layer_params key | Some p \<Rightarrow> Some p))"

text \<open>
  \<^verbatim>\<open>_initialize_prox_tv_per_layer\<close> builds the nested network of one layer, stores it
  in \<^verbatim>\<open>self.prox_tv[layer_id]\<close> and adds its parameters to the layer's parameters,
  which it returns.
\<close>

definition initialize_prox_tv_per_layer ::
  "extern \<Rightarrow> lista_tv \<Rightarrow> nat \<Rightarrow> params \<Rightarrow> groups option \<Rightarrow> pyerr + (lista_tv \<times> params)" where
  "initialize_prox_tv_per_layer ext self layer_id layer_params initial_parameters_prox =
     bind_res (ListaLASSO ext
                 \<lparr>lasso_A = I_k self, lasso_n_layers = n_inner_layers self,
                  lasso_learn_th = True,
                  lasso_name = ''Prox-TV-Lista[layer='' @ str_nat layer_id @ '']'',
                  lasso_initial_parameters = initial_parameters_prox,
                  lasso_device = device self\<rparr>) (\<lambda>layer_prox_tv.
     bind_res (case prox_tv self of
                 None \<Rightarrow> Inl (AttributeError ''prox_tv'')
               | Some (Shared _) \<Rightarrow> Inl (TypeError ''object does not support item assignment'')
               | Some (PerLayer d) \<Rightarrow>
                   Inr (self\<lparr>prox_tv := Some (PerLayer (d(layer_id \<mapsto> layer_prox_tv)))\<rparr>)) (\<lambda>self'.
     Inr (self', add_prefixed (ravel_group_params ext (lasso_parameter_groups layer_prox_tv))
                   layer_params)))"

text \<open>
  One round of the loop of \<^verbatim>\<open>get_global_parameters\<close> in per-layer mode. The layer's
  parameters are the dictionary held in the parameter store, so what
  \<^verbatim>\<open>_initialize_prox_tv_per_layer\<close> adds to them is added in the store.
\<close>

definition ensure_layer_prox :: "extern \<Rightarrow> nat \<Rightarrow> lista_tv \<Rightarrow> pyerr + lista_tv" where
  "ensure_layer_prox ext layer_id self =
     (case prox_tv self of
        None \<Rightarrow> Inl (AttributeError ''prox_tv'')
      | Some (Shared _) \<Rightarrow> Inl (TypeError ''argument of type ListaLASSO is not iterable'')
      | Some (PerLayer d) \<Rightarrow>
          if d layer_id \<noteq> None then Inr self
          else
            bind_res (get_item (parameter_groups self) (layer_key layer_id)) (\<lambda>layer_params.
            bind_res (initialize_prox_tv_per_layer ext self layer_id layer_params
                        (Some (unravel_group_params ext (\<lambda>k. layer_params (''prox:'' @ k)))))
              (\<lambda>(self', layer_params').
            Inr (self'\<lparr>parameter_groups :=
                         (parameter_groups self')(layer_key layer_id \<mapsto> layer_params')\<rparr>))))"

definition learn_prox_message :: "string \<Rightarrow> string" where
  "learn_prox_message lp =
     ''Parameter learn_prox should be in '' @ repr_list ALL_LEARN_PROX @ ''. Got ''
       @ quoted lp @ ''.''"

definition get_global_parameters :: "extern \<Rightarrow> lista_tv \<Rightarrow> groups \<Rightarrow> pyerr + lista_tv" where
  "get_global_parameters ext self initial_parameters =
     (if learn_prox self \<in> {LEARN_PROX_GLOBAL, LEARN_PROX_FALSE} then
        bind_res (ListaLASSO ext
                    \<lparr>lasso_A = I_k self, lasso_n_layers = n_inner_layers self,
                     lasso_learn_th = True, lasso_name = ''Prox-TV-Lista'',
                     lasso_initial_parameters =
                       Some (unravel_group_params ext
                               (get_default initial_parameters ''prox'' Map.empty)),
                     lasso_device = device self\<rparr>) (\<lambda>net.
        let self1 = self\<lparr>prox_tv := Some (Shared net)\<rparr> in
        if learn_prox self1 = LEARN_PROX_GLOBAL then
          (let self2 = register_parameters self1
                         (ravel_group_params ext (lasso_parameter_groups net)) ''prox''
           in Inr (self2\<lparr>force_learn_groups := force_learn_groups self2 @ [''prox'']\<rparr>))
        else Inr self1)
      else if learn_prox self = LEARN_PROX_PER_LAYER then
        for_each (ensure_layer_prox ext) [0..<n_layers self] self
      else Inl (NotImplementedError (learn_prox_message (learn_prox self))))"

definition ListaTV_get_initial_layer_parameters ::
  "extern \<Rightarrow> lista_tv \<Rightarrow> nat \<Rightarrow> pyerr + (lista_tv \<times> params)" where
  "ListaTV_get_initial_layer_parameters ext self layer_id =
     bind_res (tsub (I_k self) (sdiv (mm (A self) (tr (A self))) (l_lip self))) (\<lambda>Wu.
     let layer_params = Map.empty(''Wu'' \<mapsto> Matrix Wu);
         layer_params = layer_params(''Wx'' \<mapsto> Matrix (sdiv (tr (A self)) (l_lip self)));
         layer_params = (if learn_th self
                         then layer_params(''threshold'' \<mapsto> Scalar (1 / l_lip self))
                         else layer_params)
     in if learn_prox self = LEARN_PROX_PER_LAYER
        then initialize_prox_tv_per_layer ext self layer_id layer_params None
        else Inr (self, layer_params))"

text \<open>Reading \<^verbatim>\<open>self.prox_tv[layer_id]\<close> or \<^verbatim>\<open>self.prox_tv\<close>, and calling what was read.\<close>

definition select_prox :: "lista_tv \<Rightarrow> nat \<Rightarrow> pyerr + prox_attr" where
  "select_prox self layer_id =
     (case prox_tv self of
        None \<Rightarrow> Inl (AttributeError ''prox_tv'')
      | Some p \<Rightarrow>
          if learn_prox self = LEARN_PROX_PER_LAYER then
            (case p of
               PerLayer d \<Rightarrow> (case d layer_id of None \<Rightarrow> Inl (KeyError (str_nat layer_id))
                                                | Some net \<Rightarrow> Inr (Shared net))
             | Shared _ \<Rightarrow> Inl (TypeError ''object is not subscriptable''))
          else Inr p)"

definition call_prox :: "extern \<Rightarrow> prox_attr \<Rightarrow> tensor \<Rightarrow> real \<Rightarrow> pyerr + tensor" where
  "call_prox ext p u lbda =
     (case p of Shared net \<Rightarrow> lasso_call ext net u lbda
              | PerLayer _ \<Rightarrow> Inl (TypeError ''dict object is not callable''))"

text \<open>The body of the loop of \<^verbatim>\<open>ListaTV.forward\<close>.\<close>

definition ListaTV_layer ::
  "extern \<Rightarrow> lista_tv \<Rightarrow> tensor \<Rightarrow> real \<Rightarrow> nat \<Rightarrow> tensor \<Rightarrow> pyerr + tensor" where
  "ListaTV_layer ext self x lbda layer_id u =
     bind_res (get_item (parameter_groups self) (layer_key layer_id)) (\<lambda>layer_params.
     bind_res (get_item layer_params ''Wx'') (\<lambda>Wx.
     bind_res (get_item layer_params ''Wu'') (\<lambda>Wu.
     let mul_lbda = get_default layer_params ''threshold'' (Scalar (1 / l_lip self)) in
     bind_res (select_prox self layer_id) (\<lambda>prox_tv.
     bind_res (as_matrix Wu) (\<lambda>Wu.
     bind_res (matmul u Wu) (\<lambda>uWu.
     bind_res (as_matrix Wx) (\<lambda>Wx.
     bind_res (matmul x Wx) (\<lambda>xWx.
     bind_res (tadd uWu xWx) (\<lambda>u.
     bind_res (as_scalar mul_lbda) (\<lambda>mul_lbda.
     bind_res (call_prox ext prox_tv u (lbda * mul_lbda)) (\<lambda>z.
     Inr (cumsum z))))))))))))"

definition ListaTV_forward ::
  "extern \<Rightarrow> lista_tv \<Rightarrow> tensor \<Rightarrow> real \<Rightarrow> int option \<Rightarrow> pyerr + tensor" where
  "ListaTV_forward ext self x lbda output_layer =
     bind_res (check_output_layer self output_layer) (\<lambda>output_layer.
     bind_res (call_init_vuz ext [PTensor (A self), PTensor (D self), PTensor x]
                 [(''inv_A'', PTensor (inv_A_t self)), (''device'', device_arg (device self))])
       (\<lambda>(v0, u, z0).
     for_each (ListaTV_layer ext self x lbda) (range_list output_layer) u))"

subsection \<open>LpgdTautString\<close>

text \<open>\<^verbatim>\<open>'cuda' in device\<close>: the device name contains the text.\<close>

fun contains :: "string \<Rightarrow> string \<Rightarrow> bool" where
  "contains pat [] = (pat = [])"
| "contains pat (c # cs) = (take (length pat) (c # cs) = pat \<or> contains pat cs)"

definition LpgdTautString_attrs :: "extern \<Rightarrow> lpgd \<Rightarrow> tensor \<Rightarrow> bool \<Rightarrow> lpgd" where
  "LpgdTautString_attrs ext self a um =
     (let self1 = self\<lparr>use_moreau := um\<rparr>;
          n_atoms = nrows a;
          self2 = self1\<lparr>A := a, I_k := eye n_atoms, D := diff_operator n_atoms\<rparr>;
          self3 = self2\<lparr>A_t := A self2\<rparr>
      in self3\<lparr>inv_A_t := pinverse ext (A_t self3), l_lip := (norm2 ext (A self3))\<^sup>2\<rparr>)"

definition LpgdTautString_init ::
  "extern \<Rightarrow> (super_args \<Rightarrow> lpgd \<Rightarrow> pyerr + lpgd) \<Rightarrow> lpgd \<Rightarrow> tensor \<Rightarrow> nat \<Rightarrow> bool \<Rightarrow> bool \<Rightarrow>
   nat \<Rightarrow> string \<Rightarrow> groups option \<Rightarrow> string \<Rightarrow> nat \<Rightarrow> string option \<Rightarrow>
   string list \<times> (pyerr + lpgd)" where
  "LpgdTautString_init ext super_init self a nl lth um mi nst ip nm vb dv =
     (let on_cuda = (case dv of None \<Rightarrow> False | Some s \<Rightarrow> contains ''cuda'' s);
          out = (if on_cuda
                 then [''Cannot use LpgdTautString on cuda device. Falling back to CPU.'']
                 else []);
          dv' = (if on_cuda then Some ''cpu'' else dv)
      in (out, super_init \<lparr>sa_n_layers = nl, sa_learn_th = lth, sa_max_iter = mi,
                           sa_net_solver_type = nst, sa_initial_parameters = ip, sa_name = nm,
                           sa_verbose = vb, sa_device = dv'\<rparr>
                 (LpgdTautString_attrs ext self a um)))"

definition LpgdTautString_get_initial_layer_parameters :: "lpgd \<Rightarrow> nat \<Rightarrow> pyerr + params" where
  "LpgdTautString_get_initial_layer_parameters self layer_id =
     bind_res (tsub (I_k self) (sdiv (mm (A self) (tr (A self))) (l_lip self))) (\<lambda>Wu.
     let layer_params = Map.empty(''Wu'' \<mapsto> Matrix Wu);
         layer_params = layer_params(''Wx'' \<mapsto> Matrix (sdiv (tr (A self)) (l_lip self)))
     in Inr (if learn_th self
             then layer_params(''threshold'' \<mapsto> Scalar (1 / l_lip self))
             else layer_params))"

text \<open>The loop carries \<^verbatim>\<open>u\<close> and \<^verbatim>\<open>mul_lbda\<close>.\<close>

definition LpgdTautString_layer ::
  "extern \<Rightarrow> lpgd \<Rightarrow> tensor \<Rightarrow> real \<Rightarrow> nat \<Rightarrow> tensor \<times> pval \<Rightarrow> pyerr + (tensor \<times> pval)" where
  "LpgdTautString_layer ext self x lbda layer_id st =
     (case st of (u, mul_lbda) \<Rightarrow>
     bind_res (get_item (parameter_groups self) (layer_key layer_id)) (\<lambda>layer_params.
     bind_res (get_item layer_params ''Wx'') (\<lambda>Wx.
     bind_res (get_item layer_params ''Wu'') (\<lambda>Wu.
     bind_res (if learn_th self then get_item layer_params ''threshold'' else Inr mul_lbda)
       (\<lambda>mul_lbda.
     bind_res (as_matrix Wu) (\<lambda>Wu.
     bind_res (matmul u Wu) (\<lambda>uWu.
     bind_res (as_matrix Wx) (\<lambda>Wx.
     bind_res (matmul x Wx) (\<lambda>xWx.
     bind_res (tadd uWu xWx) (\<lambda>u.
     bind_res (as_scalar mul_lbda) (\<lambda>m.
     bind_res (ProxTV_l1 ext u (lbda * m)) (\<lambda>u.
     Inr (u, mul_lbda)))))))))))))"

definition LpgdTautString_forward ::
  "extern \<Rightarrow> lpgd \<Rightarrow> tensor \<Rightarrow> real \<Rightarrow> int option \<Rightarrow> pyerr + tensor" where
  "LpgdTautString_forward ext self x lbda output_layer =
     bind_res (check_output_layer self output_layer) (\<lambda>output_layer.
     bind_res (call_init_vuz ext [PTensor (A self), PTensor (D self), PTensor x]
                 [(''inv_A'', PTensor (inv_A_t self)), (''device'', device_arg (device self))])
       (\<lambda>(v0, u, z0).
     bind_res (for_each (LpgdTautString_layer ext self x lbda) (range_list output_layer)
                 (u, Scalar (1 / l_lip self)))
       (\<lambda>(u, mul_lbda). Inr u)))"

subsection \<open>CoupledCondatVu\<close>

definition CoupledCondatVu_attrs ::
  "extern \<Rightarrow> coupled_condat_vu \<Rightarrow> tensor \<Rightarrow> bool \<Rightarrow> coupled_condat_vu" where
  "CoupledCondatVu_attrs ext self a um =
     (let self1 = self\<lparr>use_moreau := um\<rparr>;
          n_atoms = nrows a;
          self2 = self1\<lparr>A := a, D := diff_operator n_atoms\<rparr>;
          self3 = self2\<lparr>A_t := A self2, D_t := D self2\<rparr>;
          self4 = self3\<lparr>inv_A_t := pinverse ext (A_t self3)\<rparr>;
          self5 = self4\<lparr>l_A := (norm2 ext (A self4))\<^sup>2, l_D := (norm2 ext (D self4))\<^sup>2\<rparr>;
          self6 = self5\<lparr>rho := 1, sigma := 0.5\<rparr>
      in self6\<lparr>tau := 1 / (l_A self6 / 2 + sigma self6 * (l_D self6)\<^sup>2)\<rparr>)"

definition CoupledCondatVu_init ::
  "extern \<Rightarrow> (super_args \<Rightarrow> coupled_condat_vu \<Rightarrow> pyerr + coupled_condat_vu) \<Rightarrow>
   coupled_condat_vu \<Rightarrow> tensor \<Rightarrow> nat \<Rightarrow> bool \<Rightarrow> nat \<Rightarrow> bool \<Rightarrow> string \<Rightarrow> groups option \<Rightarrow>
   string \<Rightarrow> nat \<Rightarrow> string option \<Rightarrow> string list \<times> (pyerr + coupled_condat_vu)" where
  "CoupledCondatVu_init ext super_init self a nl lth mi um nst ip nm vb dv =
     ([], super_init \<lparr>sa_n_layers = nl, sa_learn_th = lth, sa_max_iter = mi,
                       sa_net_solver_type = nst, sa_initial_parameters = ip, sa_name = nm,
                       sa_verbose = vb, sa_device = dv\<rparr>
            (CoupledCondatVu_attrs ext self a um))"

definition CoupledCondatVu_get_initial_layer_parameters ::
  "coupled_condat_vu \<Rightarrow> nat \<Rightarrow> params" where
  "CoupledCondatVu_get_initial_layer_parameters self layer_id =
     (let layer_params = Map.empty(''W_coupled'' \<mapsto> Matrix (D self))
      in if learn_th self then layer_params(''threshold'' \<mapsto> Scalar 1) else layer_params)"

text \<open>
  The body of the loop of \<^verbatim>\<open>CoupledCondatVu.forward\<close>. The loop carries
  \<^verbatim>\<open>u\<close>, \<^verbatim>\<open>v\<close>, \<^verbatim>\<open>u_old\<close> and \<^verbatim>\<open>v_old\<close>.
\<close>

definition CoupledCondatVu_layer ::
  "extern \<Rightarrow> coupled_condat_vu \<Rightarrow> tensor \<Rightarrow> real \<Rightarrow> nat \<Rightarrow>
   tensor \<times> tensor \<times> tensor \<times> tensor \<Rightarrow> pyerr + (tensor \<times> tensor \<times> tensor \<times> tensor)" where
  "CoupledCondatVu_layer ext self x lbda layer_id st =
     (case st of (u, v, u_old, v_old) \<Rightarrow>
     bind_res (get_item (parameter_groups self) (layer_key layer_id)) (\<lambda>layer_params.
     bind_res (get_item layer_params ''W_coupled'') (\<lambda>W.
     let mul_lbda = get_default layer_params ''threshold'' (Scalar 1);
         sigma' = sigma self; tau' = tau self; rho' = rho self in
     bind_res (matmul u_old (A_t self)) (\<lambda>uA.
     bind_res (tsub uA x) (\<lambda>r.
     bind_res (matmul r (tr (A_t self))) (\<lambda>g.
     bind_res (as_matrix W) (\<lambda>W.
     bind_res (matmul v_old (tr W)) (\<lambda>vW.
     bind_res (tsub (smul (- tau') g) (smul tau' vW)) (\<lambda>step.
     bind_res (tadd u_old step) (\<lambda>u_new.
     bind_res (tsub (smul 2 u_new) u_old) (\<lambda>e.
     bind_res (matmul e W) (\<lambda>eW.
     bind_res (tadd v_old (smul sigma' eW)) (\<lambda>v_mid.
     bind_res (as_scalar mul_lbda) (\<lambda>mul_lbda.
     bind_res (pseudo_soft_th_tensor ext (sdiv v_mid sigma') (lbda * mul_lbda) (1 / sigma')) (\<lambda>th.
     bind_res (tsub v_mid (smul sigma' th)) (\<lambda>v_new.
     bind_res (tadd (smul rho' u_new) (smul (1 - rho') u_old)) (\<lambda>u.
     bind_res (tadd (smul rho' v_new) (smul (1 - rho') v_old)) (\<lambda>v.
     Inr (u, v, u, v)))))))))))))))))))"

definition CoupledCondatVu_forward ::
  "extern \<Rightarrow> coupled_condat_vu \<Rightarrow> tensor \<Rightarrow> real \<Rightarrow> int option \<Rightarrow> pyerr + tensor" where
  "CoupledCondatVu_forward ext self x lbda output_layer =
     bind_res (check_output_layer self output_layer) (\<lambda>output_layer.
     bind_res (call_init_vuz ext [PTensor (A self), PTensor (D self), PTensor x]
                 [(''inv_A'', PTensor (inv_A_t self)), (''device'', device_arg (device self))])
       (\<lambda>(v, u, z0).
     bind_res (for_each (CoupledCondatVu_layer ext self x lbda) (range_list output_layer)
                 (u, v, u, v))
       (\<lambda>(u, v, u_old, v_old). Inr u)))"

subsection \<open>StepCondatVu\<close>

definition StepCondatVu_attrs :: "extern \<Rightarrow> step_condat_vu \<Rightarrow> tensor \<Rightarrow> bool \<Rightarrow> step_condat_vu" where
  "StepCondatVu_attrs ext self a um =
     (let self1 = self\<lparr>use_moreau := um\<rparr>;
          n_atoms = nrows a;
          self2 = self1\<lparr>A := a, D := diff_operator n_atoms\<rparr>;
          self3 = self2\<lparr>A_t := A self2, D_t := D self2\<rparr>;
          self4 = self3\<lparr>inv_A_t := pinverse ext (A_t self3)\<rparr>;
          self5 = self4\<lparr>l_A := (norm2 ext (A self4))\<^sup>2, l_D := (norm2 ext (D self4))\<^sup>2\<rparr>
      in self5\<lparr>rho := 1\<rparr>)"

definition StepCondatVu_init ::
  "extern \<Rightarrow> (super_args \<Rightarrow> step_condat_vu \<Rightarrow> pyerr + step_condat_vu) \<Rightarrow> step_condat_vu \<Rightarrow>
   tensor \<Rightarrow> nat \<Rightarrow> bool \<Rightarrow> nat \<Rightarrow> bool \<Rightarrow> string \<Rightarrow> groups option \<Rightarrow> string \<Rightarrow> nat \<Rightarrow>
   string option \<Rightarrow> string list \<times> (pyerr + step_condat_vu)" where
  "StepCondatVu_init ext super_init self a nl lth mi um nst ip nm vb dv =
     (let self' = StepCondatVu_attrs ext self a um;
          out = (if lth then [''In StepIstaLASSO learn_th can't be enable, ignore it.''] else [])
      in (out, super_init \<lparr>sa_n_layers = nl, sa_learn_th = False, sa_max_iter = mi,
                           sa_net_solver_type = nst, sa_initial_parameters = ip, sa_name = nm,
                           sa_verbose = vb, sa_device = dv\<rparr> self'))"

definition StepCondatVu_get_initial_layer_parameters :: "step_condat_vu \<Rightarrow> nat \<Rightarrow> params" where
  "StepCondatVu_get_initial_layer_parameters self layer_id = Map.empty(''sigma'' \<mapsto> Scalar 0.5)"

text \<open>\<^verbatim>\<open>torch.clamp(sigma, 0.5, 2.0)\<close>\<close>

definition clamp :: "real \<Rightarrow> real \<Rightarrow> real \<Rightarrow> real" where
  "clamp s lo hi = min (max s lo) hi"

text \<open>
  The body of the loop of \<^verbatim>\<open>StepCondatVu.forward\<close> in two parts: the layer reads
  and clamps its \<^verbatim>\<open>sigma\<close> and computes \<^verbatim>\<open>tau\<close> from it, and the update runs
  with these two step sizes.
\<close>

definition StepCondatVu_update ::
  "extern \<Rightarrow> step_condat_vu \<Rightarrow> tensor \<Rightarrow> real \<Rightarrow> real \<Rightarrow> real \<Rightarrow>
   tensor \<times> tensor \<times> tensor \<times> tensor \<Rightarrow> pyerr + (tensor \<times> tensor \<times> tensor \<times> tensor)" where
  "StepCondatVu_update ext self x lbda sigma' tau' st =
     (case st of (u, v, u_old, v_old) \<Rightarrow>
     let rho' = rho self in
     bind_res (matmul u_old (A_t self)) (\<lambda>uA.
     bind_res (tsub uA x) (\<lambda>r.
     bind_res (matmul r (tr (A_t self))) (\<lambda>g.
     bind_res (matmul v_old (tr (D_t self))) (\<lambda>vD.
     bind_res (tsub (smul (- tau') g) (smul tau' vD)) (\<lambda>step.
     bind_res (tadd u_old step) (\<lambda>u_new.
     bind_res (tsub (smul 2 u_new) u_old) (\<lambda>e.
     bind_res (matmul e (D_t self)) (\<lambda>eD.
     bind_res (tadd v_old (smul sigma' eD)) (\<lambda>v_mid.
     bind_res (pseudo_soft_th_tensor ext (sdiv v_mid sigma') lbda (1 / sigma')) (\<lambda>th.
     bind_res (tsub v_mid (smul sigma' th)) (\<lambda>v_new.
     bind_res (tadd (smul rho' u_new) (smul (1 - rho') u_old)) (\<lambda>u.
     bind_res (tadd (smul rho' v_new) (smul (1 - rho') v_old)) (\<lambda>v.
     Inr (u, v, u, v)))))))))))))))"

definition StepCondatVu_layer ::
  "extern \<Rightarrow> step_condat_vu \<Rightarrow> tensor \<Rightarrow> real \<Rightarrow> nat \<Rightarrow>
   tensor \<times> tensor \<times> tensor \<times> tensor \<Rightarrow> pyerr + (tensor \<times> tensor \<times> tensor \<times> tensor)" where
  "StepCondatVu_layer ext self x lbda layer_id st =
     bind_res (get_item (parameter_groups self) (layer_key layer_id)) (\<lambda>layer_params.
     bind_res (get_item layer_params ''sigma'') (\<lambda>sigma'.
     bind_res (as_scalar sigma') (\<lambda>sigma'.
     let sigma' = clamp sigma' 0.5 2.0;
         tau' = 1 / (l_A self / 2 + sigma' * (l_D self)\<^sup>2)
     in StepCondatVu_update ext self x lbda sigma' tau' st)))"

definition StepCondatVu_forward ::
  "extern \<Rightarrow> step_condat_vu \<Rightarrow> tensor \<Rightarrow> real \<Rightarrow> int option \<Rightarrow> pyerr + tensor" where
  "StepCondatVu_forward ext self x lbda output_layer =
     bind_res (check_output_layer self output_layer) (\<lambda>output_layer.
     bind_res (call_init_vuz ext [PTensor (A self), PTensor (D self), PTensor x]
                 [(''inv_A'', PTensor (inv_A_t self)), (''device'', device_arg (device self))])
       (\<lambda>(v, u, z0).
     bind_res (call_init_vuz ext [PTensor (A self), PTensor (D self), PTensor x]
                 [(''device'', device_arg (device self))])
       (\<lambda>(v_old, u_old, z0').
     bind_res (for_each (StepCondatVu_layer ext self x lbda) (range_list output_layer)
                 (u, v, u_old, v_old))
       (\<lambda>(u, v, u_old, v_old). Inr u))))"

subsection \<open>StepSubGradTV\<close>

definition StepSubGradTV_attrs :: "extern \<Rightarrow> subgrad \<Rightarrow> tensor \<Rightarrow> bool \<Rightarrow> subgrad" where
  "StepSubGradTV_attrs ext self a um =
     (let self1 = self\<lparr>use_moreau := um\<rparr>;
          n_atoms = nrows a;
          self2 = self1\<lparr>A := a, D := diff_operator n_atoms\<rparr>;
          self3 = self2\<lparr>A_t := A self2, D_t := D self2\<rparr>
      in self3\<lparr>inv_A_t := pinverse ext (A_t self3)\<rparr>)"

definition StepSubGradTV_init ::
  "extern \<Rightarrow> (super_args \<Rightarrow> subgrad \<Rightarrow> pyerr + subgrad) \<Rightarrow> subgrad \<Rightarrow> tensor \<Rightarrow> nat \<Rightarrow> bool \<Rightarrow>
   bool \<Rightarrow> nat \<Rightarrow> string \<Rightarrow> groups option \<Rightarrow> string \<Rightarrow> nat \<Rightarrow> string option \<Rightarrow>
   string list \<times> (pyerr + subgrad)" where
  "StepSubGradTV_init ext super_init self a nl lth um mi nst ip nm vb dv =
     (let self' = StepSubGradTV_attrs ext self a um;
          out = (if lth then [''In StepSubGradTV learn_th can't be enable, ignore it.''] else [])
      in (out, super_init \<lparr>sa_n_layers = nl, sa_learn_th = False, sa_max_iter = mi,
                           sa_net_solver_type = nst, sa_initial_parameters = ip, sa_name = nm,
                           sa_verbose = vb, sa_device = dv\<rparr> self'))"

definition StepSubGradTV_get_initial_layer_parameters :: "subgrad \<Rightarrow> nat \<Rightarrow> params" where
  "StepSubGradTV_get_initial_layer_parameters self layer_id =
     (let init_step_size = 1 / 10 ^ 10 in Map.empty(''step_size'' \<mapsto> Scalar init_step_size))"

text \<open>The body of the loop of \<^verbatim>\<open>StepSubGradTV.forward\<close>.\<close>

definition StepSubGradTV_layer ::
  "extern \<Rightarrow> subgrad \<Rightarrow> tensor \<Rightarrow> real \<Rightarrow> nat \<Rightarrow> tensor \<Rightarrow> pyerr + tensor" where
  "StepSubGradTV_layer ext self x lbda layer_id u =
     bind_res (get_item (parameter_groups self) (layer_key layer_id)) (\<lambda>layer_params.
     bind_res (get_item layer_params ''step_size'') (\<lambda>step_size.
     bind_res (matmul u (A_t self)) (\<lambda>uA.
     bind_res (tsub uA x) (\<lambda>r.
     bind_res (matmul r (tr (A_t self))) (\<lambda>residual.
     bind_res (matmul u (D_t self)) (\<lambda>uD.
     bind_res (matmul (sign uD) (tr (D_t self))) (\<lambda>reg.
     bind_res (tadd residual (smul lbda reg)) (\<lambda>grad.
     bind_res (as_scalar step_size) (\<lambda>step_size.
     tsub u (smul step_size grad))))))))))"

definition StepSubGradTV_forward ::
  "extern \<Rightarrow> subgrad \<Rightarrow> tensor \<Rightarrow> real \<Rightarrow> int option \<Rightarrow> pyerr + tensor" where
  "StepSubGradTV_forward ext self x lbda output_layer =
     bind_res (check_output_layer self output_layer) (\<lambda>output_layer.
     bind_res (call_init_vuz ext [PTensor (A self), PTensor (D self), PTensor x]
                 [(''device'', device_arg (device self))])
       (\<lambda>(v0, u, z0).
     for_each (StepSubGradTV_layer ext self x lbda) (range_list output_layer) u))"

section \<open>The recurrences as the design states them\<close>

text \<open>
  The update rules of the design document, written with the pure tensor operations; the
  loop bodies above are compared with them.
\<close>

text \<open>\<open>u \<leftarrow> u Wu + x Wx\<close>\<close>

definition spec_affine :: "tensor \<Rightarrow> tensor \<Rightarrow> tensor \<Rightarrow> tensor \<Rightarrow> tensor" where
  "spec_affine u wu x wx = zipw (+) (mm u wu) (mm x wx)"

text \<open>\<open>u_new = u_old - \<tau> (u_old A - x) A\<^sup>T - \<tau> v_old W\<^sup>T\<close>\<close>

definition spec_u_new :: "real \<Rightarrow> tensor \<Rightarrow> tensor \<Rightarrow> tensor \<Rightarrow> tensor \<Rightarrow> tensor \<Rightarrow> tensor" where
  "spec_u_new t a w x u_old v_old =
     zipw (-) (zipw (-) u_old (smul t (mm (zipw (-) (mm u_old a) x) (tr a))))
              (smul t (mm v_old (tr w)))"

text \<open>\<open>v_ = v_old + \<sigma> (2 u_new - u_old) W\<close>\<close>

definition spec_v_mid :: "real \<Rightarrow> tensor \<Rightarrow> tensor \<Rightarrow> tensor \<Rightarrow> tensor \<Rightarrow> tensor" where
  "spec_v_mid s w u_new u_old v_old =
     zipw (+) v_old (smul s (mm (zipw (-) (smul 2 u_new) u_old) w))"

text \<open>\<open>v_new = v_ - \<sigma> SoftThreshold(v_ / \<sigma>, \<lambda> threshold, 1 / \<sigma>)\<close>, given the kernel's value\<close>

definition spec_v_new :: "real \<Rightarrow> tensor \<Rightarrow> tensor \<Rightarrow> tensor" where
  "spec_v_new s v_mid th = zipw (-) v_mid (smul s th)"

text \<open>\<open>u \<leftarrow> \<rho> u_new + (1 - \<rho>) u_old\<close>\<close>

definition spec_relax :: "real \<Rightarrow> tensor \<Rightarrow> tensor \<Rightarrow> tensor" where
  "spec_relax r new old = zipw (+) (smul r new) (smul (1 - r) old)"

text \<open>\<open>u \<leftarrow> u - step_size [(u A - x) A\<^sup>T + \<lambda> sign(u D) D\<^sup>T]\<close>\<close>

definition spec_subgrad :: "real \<Rightarrow> real \<Rightarrow> tensor \<Rightarrow> tensor \<Rightarrow> tensor \<Rightarrow> tensor \<Rightarrow> tensor" where
  "spec_subgrad step lbda a d x u =
     zipw (-) u (smul step (zipw (+) (mm (zipw (-) (mm u a) x) (tr a))
                                      (smul lbda (mm (sign (mm u d)) (tr d)))))"

text \<open>
  The threshold of a layer (its learned \<^verbatim>\<open>threshold\<close>, or the default when
  thresholds are not learned) and the nested network of a ListaTV layer (the layer's own
  instance in per-layer mode, the shared instance otherwise).
\<close>

definition spec_threshold :: "real \<Rightarrow> params \<Rightarrow> real option" where
  "spec_threshold dflt ps =
     (case ps ''threshold'' of None \<Rightarrow> Some dflt | Some (Scalar t) \<Rightarrow> Some t
                             | Some (Matrix _) \<Rightarrow> None)"

definition spec_prox_instance :: "lista_tv \<Rightarrow> nat \<Rightarrow> lasso_net option" where
  "spec_prox_instance self layer_id =
     (if learn_prox self = LEARN_PROX_PER_LAYER
      then (case prox_tv self of Some (PerLayer d) \<Rightarrow> d layer_id | _ \<Rightarrow> None)
      else (case prox_tv self of Some (Shared net) \<Rightarrow> Some net | _ \<Rightarrow> None))"

section \<open>Sample inputs\<close>

text \<open>
  Concrete collaborators, operators and networks on which the functions are run. The
  mixing operator \<open>a21\<close> has one column of norm one, so that its transpose is its
  pseudo-inverse; on tensors with one column the Frobenius norm is the spectral norm.
  The sample soft-thresholding kernel shrinks every entry towards zero, and the sample
  nested network and taut-string operator return their input.
\<close>

definition frobenius :: "tensor \<Rightarrow> real" where
  "frobenius t = sqrt (sum_list (map (\<lambda>e. e * e) (concat (rows t))))"

definition soft_th :: "real \<Rightarrow> real \<Rightarrow> real" where
  "soft_th e t = sgn e * max (\<bar>e\<bar> - t) 0"

definition sample_ext :: extern where
  "sample_ext =
     \<lparr>pinverse = tr, norm2 = frobenius,
      pseudo_soft_th_tensor =
        (\<lambda>z lbda step. Inr (z\<lparr>rows := map (map (\<lambda>e. soft_th e (lbda * step))) (rows z)\<rparr>)),
      ProxTV_l1 = (\<lambda>u lbda. Inr u),
      ListaLASSO = (\<lambda>args. Inr \<lparr>built_from = args, lasso_parameter_groups = Map.empty\<rparr>),
      lasso_call = (\<lambda>net u lbda. Inr u),
      ravel_group_params = (\<lambda>g. Map.empty),
      unravel_group_params = (\<lambda>p. Map.empty)\<rparr>"

definition a21 :: tensor where
  "a21 = \<lparr>nrows = 2, ncols = 1, rows = [[1], [0]]\<rparr>"

definition x11 :: tensor where
  "x11 = \<lparr>nrows = 1, ncols = 1, rows = [[3]]\<rparr>"

definition u12 :: tensor where
  "u12 = \<lparr>nrows = 1, ncols = 2, rows = [[1, 2]]\<rparr>"

definition v11 :: tensor where
  "v11 = \<lparr>nrows = 1, ncols = 1, rows = [[1]]\<rparr>"

text \<open>
  Networks over \<open>a21\<close> with one layer, with the attributes their constructors compute
  from \<open>a21\<close> and the layer's parameters given.
\<close>

definition sample_step :: "real \<Rightarrow> step_condat_vu" where
  "sample_step s =
     \<lparr>n_layers = 1, learn_th = False, device = None,
      parameter_groups = Map.empty(layer_key 0 \<mapsto> Map.empty(''sigma'' \<mapsto> Scalar s)),
      force_learn_groups = [], use_moreau = False, A = a21, D = diff_operator 2, A_t = a21,
      inv_A_t = tr a21, D_t = diff_operator 2, l_A = 1, l_D = 2, rho = 1\<rparr>"

definition sample_subgrad :: "real \<Rightarrow> subgrad" where
  "sample_subgrad s =
     \<lparr>n_layers = 1, learn_th = False, device = None,
      parameter_groups = Map.empty(layer_key 0 \<mapsto> Map.empty(''step_size'' \<mapsto> Scalar s)),
      force_learn_groups = [], use_moreau = False, A = a21, D = diff_operator 2, A_t = a21,
      inv_A_t = tr a21, D_t = diff_operator 2\<rparr>"

definition sample_coupled :: coupled_condat_vu where
  "sample_coupled =
     \<lparr>n_layers = 1, learn_th = True, device = None,
      parameter_groups =
        Map.empty(layer_key 0 \<mapsto>
          Map.empty(''W_coupled'' \<mapsto> Matrix (diff_operator 2), ''threshold'' \<mapsto> Scalar 1)),
      force_learn_groups = [], use_moreau = False, A = a21, D = diff_operator 2, A_t = a21,
      inv_A_t = tr a21, D_t = diff_operator 2, l_A = 1, l_D = 2, rho = 1,
      sigma = 0.5, tau = 0.4\<rparr>"

definition sample_lista_tv :: "string \<Rightarrow> prox_attr option \<Rightarrow> lista_tv" where
  "sample_lista_tv lp pt =
     \<lparr>n_layers = 1, learn_th = True, device = None,
      parameter_groups =
        Map.empty(layer_key 0 \<mapsto>
          Map.empty(''Wu'' \<mapsto> Matrix (eye 2), ''Wx'' \<mapsto> Matrix (tr a21),
                    ''threshold'' \<mapsto> Scalar 1)),
      force_learn_groups = [], use_moreau = False, A = a21, D = diff_operator 2, A_t = a21,
      inv_A_t = tr a21, I_k = eye 2, l_lip = 1, learn_prox = lp, n_inner_layers = 0,
      prox_tv = pt\<rparr>"

definition sample_net :: lasso_net where
  "sample_net =
     \<lparr>built_from =
        \<lparr>lasso_A = eye 2, lasso_n_layers = 0, lasso_learn_th = True,
         lasso_name = ''Prox-TV-Lista'', lasso_initial_parameters = Some Map.empty,
         lasso_device = None\<rparr>,
      lasso_parameter_groups = Map.empty\<rparr>"

text \<open>
  A base constructor that stores the number of layers, the threshold flag and the device
  it is given, and succeeds.
\<close>

definition sample_super_init ::
  "super_args \<Rightarrow> 'a lista_base_scheme \<Rightarrow> pyerr + 'a lista_base_scheme" where
  "sample_super_init args self =
     Inr (self\<lparr>n_layers := sa_n_layers args, learn_th := sa_learn_th args,
               device := sa_device args\<rparr>)"

section \<open>Basic facts\<close>

lemma bind_res_Inl: "bind_res (Inl e) f = Inl e"
  by (simp add: bind_res_def)

lemma bind_res_Inr: "bind_res (Inr v) f = f v"
  by (simp add: bind_res_def)

lemma matmul_ok: "ncols a = nrows b \<Longrightarrow> matmul a b = Inr (mm a b)"
  by (simp add: matmul_def)

lemma expand_same: "expand a (nrows a) (ncols a) = rows a"
  by (simp add: expand_def)

lemma ewise_ok: "nrows a = nrows b \<Longrightarrow> ncols a = ncols b \<Longrightarrow> ewise f a b = Inr (zipw f a b)"
  using expand_same [of a] expand_same [of b]
  by (simp add: ewise_def bdim_def zipw_def)

lemma tadd_ok: "nrows a = nrows b \<Longrightarrow> ncols a = ncols b \<Longrightarrow> tadd a b = Inr (zipw (+) a b)"
  by (simp add: tadd_def ewise_ok)

lemma tsub_ok: "nrows a = nrows b \<Longrightarrow> ncols a = ncols b \<Longrightarrow> tsub a b = Inr (zipw (-) a b)"
  by (simp add: tsub_def ewise_ok)

lemma shape_simps:
  "nrows (mm a b) = nrows a" "ncols (mm a b) = ncols b"
  "nrows (tr a) = ncols a" "ncols (tr a) = nrows a"
  "nrows (smul c a) = nrows a" "ncols (smul c a) = ncols a"
  "nrows (sdiv a c) = nrows a" "ncols (sdiv a c) = ncols a"
  "nrows (sign a) = nrows a" "ncols (sign a) = ncols a"
  "nrows (zipw f a b) = nrows a" "ncols (zipw f a b) = ncols a"
  "nrows (cumsum a) = nrows a" "ncols (cumsum a) = ncols a"
  "nrows (first_col a) = nrows a" "ncols (first_col a) = 1"
  "nrows (hcat a b) = nrows a" "ncols (hcat a b) = ncols a + ncols b"
  "nrows (zeros_t n m) = n" "ncols (zeros_t n m) = m"
  by (simp_all add: mm_def tr_def smul_def sdiv_def sign_def zipw_def cumsum_def first_col_def
      hcat_def zeros_t_def)

section \<open>The call of the initialiser in the forward passes\<close>

lemma bind_missing_lbda:
  "bind_args init_vuz_sig [a, d, x] [(''device'', dv)] =
     Inl (TypeError (''init_vuz() missing 1 required positional argument: '' @ quoted ''lbda''))"
  by (simp add: bind_args_def init_vuz_sig_def bind_res_def missing_message_def str_nat.simps
      digit_def quoted_def)

lemma bind_unexpected_inv_A:
  "bind_args init_vuz_sig [a, d, x] ((''inv_A'', i) # kws) =
     Inl (TypeError (''init_vuz() got an unexpected keyword argument '' @ quoted ''inv_A''))"
  by (simp add: bind_args_def init_vuz_sig_def bind_res_def quoted_def)

lemma call_with_inv_A:
  "call_init_vuz ext [a, d, x] ((''inv_A'', i) # kws) =
     Inl (TypeError (''init_vuz() got an unexpected keyword argument '' @ quoted ''inv_A''))"
  by (simp add: call_init_vuz_def bind_unexpected_inv_A bind_res_Inl)

lemma call_without_lbda:
  "call_init_vuz ext [a, d, x] [(''device'', dv)] =
     Inl (TypeError (''init_vuz() missing 1 required positional argument: '' @ quoted ''lbda''))"
  by (simp add: call_init_vuz_def bind_missing_lbda bind_res_Inl)

lemma ListaTV_forward_fails:
  "ListaTV_forward ext s x lbda ol =
     bind_res (check_output_layer s ol) (\<lambda>k.
       Inl (TypeError (''init_vuz() got an unexpected keyword argument '' @ quoted ''inv_A'')))"
  by (simp add: ListaTV_forward_def call_with_inv_A bind_res_Inl)

lemma LpgdTautString_forward_fails:
  "LpgdTautString_forward ext s x lbda ol =
     bind_res (check_output_layer s ol) (\<lambda>k.
       Inl (TypeError (''init_vuz() got an unexpected keyword argument '' @ quoted ''inv_A'')))"
  by (simp add: LpgdTautString_forward_def call_with_inv_A bind_res_Inl)

lemma CoupledCondatVu_forward_fails:
  "CoupledCondatVu_forward ext s x lbda ol =
     bind_res (check_output_layer s ol) (\<lambda>k.
       Inl (TypeError (''init_vuz() got an unexpected keyword argument '' @ quoted ''inv_A'')))"
  by (simp add: CoupledCondatVu_forward_def call_with_inv_A bind_res_Inl)

lemma StepCondatVu_forward_fails:
  "StepCondatVu_forward ext s x lbda ol =
     bind_res (check_output_layer s ol) (\<lambda>k.
       Inl (TypeError (''init_vuz() got an unexpected keyword argument '' @ quoted ''inv_A'')))"
  by (simp add: StepCondatVu_forward_def call_with_inv_A bind_res_Inl)

lemma StepSubGradTV_forward_fails:
  "StepSubGradTV_forward ext s x lbda ol =
     bind_res (check_output_layer s ol) (\<lambda>k.
       Inl (TypeError (''init_vuz() missing 1 required positional argument: '' @ quoted ''lbda'')))"
  by (simp add: StepSubGradTV_forward_def call_without_lbda bind_res_Inl)

lemma check_output_layer_0: "check_output_layer s (Some 0) = Inr 0"
  by (simp add: check_output_layer_def)


text \<open>
  Claim C5. With \<^verbatim>\<open>output_layer = 0\<close> every forward pass is meant to return the
  initialiser's \<open>u\<close>. On the code, each of the five forward passes raises the
  \<^verbatim>\<open>TypeError\<close> of the call of \<^verbatim>\<open>init_vuz\<close> instead, for every network and input.
\<close>

theorem forward_output_layer_0_raises:
  "ListaTV_forward ext s1 t lbda (Some 0) =
     Inl (TypeError (''init_vuz() got an unexpected keyword argument '' @ quoted ''inv_A''))
   \<and> LpgdTautString_forward ext s2 t lbda (Some 0) =
     Inl (TypeError (''init_vuz() got an unexpected keyword argument '' @ quoted ''inv_A''))
   \<and> CoupledCondatVu_forward ext s3 t lbda (Some 0) =
     Inl (TypeError (''init_vuz() got an unexpected keyword argument '' @ quoted ''inv_A''))
   \<and> StepCondatVu_forward ext s4 t lbda (Some 0) =
     Inl (TypeError (''init_vuz() got an unexpected keyword argument '' @ quoted ''inv_A''))
   \<and> StepSubGradTV_forward ext s5 t lbda (Some 0) =
     Inl (TypeError (''init_vuz() missing 1 required positional argument: '' @ quoted ''lbda''))"
  by (simp add: ListaTV_forward_fails LpgdTautString_forward_fails CoupledCondatVu_forward_fails
      StepCondatVu_forward_fails StepSubGradTV_forward_fails check_output_layer_0 bind_res_Inr)

section \<open>The step sizes of the Condat-Vu networks\<close>

lemma StepCondatVu_layer_unfold:
  assumes "parameter_groups self (layer_key lid) = Some ps" and "ps ''sigma'' = Some (Scalar s)"
  shows "StepCondatVu_layer ext self x lbda lid st =
           StepCondatVu_update ext self x lbda (clamp s 0.5 2)
             (1 / (l_A self / 2 + clamp s 0.5 2 * (l_D self)\<^sup>2)) st"
  using assms
  by (simp add: StepCondatVu_layer_def get_item_def as_scalar_def bind_res_Inr Let_def)

text \<open>
  Claim C8. A layer of StepCondatVu whose stored \<^verbatim>\<open>sigma\<close> is \<open>s\<close> runs its update
  with the clamped value, which lies in \<open>[0.5, 2]\<close> and is the nearest bound when \<open>s\<close>
  is outside that range (a stored 10 is used as 2); \<^verbatim>\<open>sigma\<close> is initialised to 0.5.
\<close>

theorem StepCondatVu_sigma_clamped:
  assumes "parameter_groups self (layer_key lid) = Some ps" and "ps ''sigma'' = Some (Scalar s)"
  shows "0.5 \<le> clamp s 0.5 2 \<and> clamp s 0.5 2 \<le> 2
         \<and> clamp s 0.5 2 = (if s < 0.5 then 0.5 else if 2 < s then 2 else s)
         \<and> clamp 10 0.5 2 = 2
         \<and> StepCondatVu_get_initial_layer_parameters self0 lid0 ''sigma'' = Some (Scalar 0.5)
         \<and> StepCondatVu_layer ext self x lbda lid st =
             StepCondatVu_update ext self x lbda (clamp s 0.5 2)
               (1 / (l_A self / 2 + clamp s 0.5 2 * (l_D self)\<^sup>2)) st"
proof -
  have "clamp s 0.5 2 = (if s < 0.5 then 0.5 else if 2 < s then 2 else s)"
    by (simp add: clamp_def)
  moreover have "0.5 \<le> clamp s 0.5 2 \<and> clamp s 0.5 2 \<le> 2"
    by (simp add: clamp_def)
  moreover have "clamp 10 0.5 2 = 2"
    by (simp add: clamp_def)
  moreover have "StepCondatVu_get_initial_layer_parameters self0 lid0 ''sigma'' = Some (Scalar 0.5)"
    by (simp add: StepCondatVu_get_initial_layer_parameters_def)
  ultimately show ?thesis
    using StepCondatVu_layer_unfold [OF assms] by simp
qed

theorem StepCondatVu_sigma_clamped_witness:
  "parameter_groups (sample_step 10) (layer_key 0) = Some (Map.empty(''sigma'' \<mapsto> Scalar 10))
   \<and> (Map.empty(''sigma'' \<mapsto> Scalar 10)) ''sigma'' = Some (Scalar 10)
   \<and> clamp 10 0.5 2 = 2
   \<and> StepCondatVu_layer sample_ext (sample_step 10) x11 0.1 0 (u12, v11, u12, v11) =
       StepCondatVu_update sample_ext (sample_step 10) x11 0.1 2 (2 / 17) (u12, v11, u12, v11)"
proof -
  have h1: "parameter_groups (sample_step 10) (layer_key 0) =
              Some (Map.empty(''sigma'' \<mapsto> Scalar 10))"
    by (simp add: sample_step_def)
  have h2: "(Map.empty(''sigma'' \<mapsto> Scalar 10)) ''sigma'' = Some (Scalar 10)"
    by simp
  have c: "clamp 10 0.5 2 = 2"
    by (simp add: clamp_def)
  have t: "1 / (l_A (sample_step 10) / 2 + 2 * (l_D (sample_step 10))\<^sup>2) = 2 / 17"
    by (simp add: sample_step_def)
  have e: "StepCondatVu_layer sample_ext (sample_step 10) x11 0.1 0 (u12, v11, u12, v11) =
             StepCondatVu_update sample_ext (sample_step 10) x11 0.1 (clamp 10 0.5 2)
               (1 / (l_A (sample_step 10) / 2 + clamp 10 0.5 2 * (l_D (sample_step 10))\<^sup>2))
               (u12, v11, u12, v11)"
    using StepCondatVu_sigma_clamped [OF h1 h2, where ext = sample_ext and x = x11
        and lbda = "0.1" and st = "(u12, v11, u12, v11)"]
    by blast
  show ?thesis
    using h1 h2 c e [unfolded c t] by blast
qed

section \<open>Requests the constructors override\<close>

text \<open>
  Constructing StepCondatVu or StepSubGradTV with \<^verbatim>\<open>learn_th=True\<close> prints a
  notice and hands the base constructor what the construction with
  \<^verbatim>\<open>learn_th=False\<close> hands it, \<^verbatim>\<open>learn_th=False\<close> included. No
  \<^verbatim>\<open>threshold\<close> parameter is created, and a layer computes the same with or without
  a \<^verbatim>\<open>threshold\<close> entry among its parameters.
\<close>

lemma learn_th_override:
  "StepCondatVu_init ext sup1 s1 a nl True mi um nst ip nm vb dv =
     ([''In StepIstaLASSO learn_th can't be enable, ignore it.''],
      snd (StepCondatVu_init ext sup1 s1 a nl False mi um nst ip nm vb dv))
   \<and> StepCondatVu_init ext sup1 s1 a nl False mi um nst ip nm vb dv =
     ([], sup1 \<lparr>sa_n_layers = nl, sa_learn_th = False, sa_max_iter = mi,
                 sa_net_solver_type = nst, sa_initial_parameters = ip, sa_name = nm,
                 sa_verbose = vb, sa_device = dv\<rparr> (StepCondatVu_attrs ext s1 a um))
   \<and> StepSubGradTV_init ext sup2 s2 a nl True um mi nst ip nm vb dv =
     ([''In StepSubGradTV learn_th can't be enable, ignore it.''],
      snd (StepSubGradTV_init ext sup2 s2 a nl False um mi nst ip nm vb dv))
   \<and> StepSubGradTV_init ext sup2 s2 a nl False um mi nst ip nm vb dv =
     ([], sup2 \<lparr>sa_n_layers = nl, sa_learn_th = False, sa_max_iter = mi,
                 sa_net_solver_type = nst, sa_initial_parameters = ip, sa_name = nm,
                 sa_verbose = vb, sa_device = dv\<rparr> (StepSubGradTV_attrs ext s2 a um))
   \<and> StepCondatVu_get_initial_layer_parameters s3 lid ''threshold'' = None
   \<and> StepSubGradTV_get_initial_layer_parameters s4 lid ''threshold'' = None
   \<and> StepCondatVu_layer ext
        (s3\<lparr>parameter_groups := (parameter_groups s3)(layer_key lid \<mapsto> ps(''threshold'' \<mapsto> th))\<rparr>)
        x lbda lid st =
      StepCondatVu_layer ext
        (s3\<lparr>parameter_groups := (parameter_groups s3)(layer_key lid \<mapsto> ps(''threshold'' := None))\<rparr>)
        x lbda lid st
   \<and> StepSubGradTV_layer ext
        (s4\<lparr>parameter_groups := (parameter_groups s4)(layer_key lid \<mapsto> ps(''threshold'' \<mapsto> th))\<rparr>)
        x lbda lid u =
      StepSubGradTV_layer ext
        (s4\<lparr>parameter_groups := (parameter_groups s4)(layer_key lid \<mapsto> ps(''threshold'' := None))\<rparr>)
        x lbda lid u"
proof -
  have a: "StepCondatVu_init ext sup1 s1 a nl True mi um nst ip nm vb dv =
     ([''In StepIstaLASSO learn_th can't be enable, ignore it.''],
      snd (StepCondatVu_init ext sup1 s1 a nl False mi um nst ip nm vb dv))"
    by (simp add: StepCondatVu_init_def Let_def)
  have b: "StepCondatVu_init ext sup1 s1 a nl False mi um nst ip nm vb dv =
     ([], sup1 \<lparr>sa_n_layers = nl, sa_learn_th = False, sa_max_iter = mi,
                 sa_net_solver_type = nst, sa_initial_parameters = ip, sa_name = nm,
                 sa_verbose = vb, sa_device = dv\<rparr> (StepCondatVu_attrs ext s1 a um))"
    by (simp add: StepCondatVu_init_def Let_def)
  have c: "StepSubGradTV_init ext sup2 s2 a nl True um mi nst ip nm vb dv =
     ([''In StepSubGradTV learn_th can't be enable, ignore it.''],
      snd (StepSubGradTV_init ext sup2 s2 a nl False um mi nst ip nm vb dv))"
    by (simp add: StepSubGradTV_init_def Let_def)
  have d: "StepSubGradTV_init ext sup2 s2 a nl False um mi nst ip nm vb dv =
     ([], sup2 \<lparr>sa_n_layers = nl, sa_learn_th = False, sa_max_iter = mi,
                 sa_net_solver_type = nst, sa_initial_parameters = ip, sa_name = nm,
                 sa_verbose = vb, sa_device = dv\<rparr> (StepSubGradTV_attrs ext s2 a um))"
    by (simp add: StepSubGradTV_init_def Let_def)
  have e: "StepCondatVu_get_initial_layer_parameters s3 lid ''threshold'' = None"
    by (simp add: StepCondatVu_get_initial_layer_parameters_def)
  have f: "StepSubGradTV_get_initial_layer_parameters s4 lid ''threshold'' = None"
    by (simp add: StepSubGradTV_get_initial_layer_parameters_def Let_def)
  have g: "StepCondatVu_layer ext
        (s3\<lparr>parameter_groups := (parameter_groups s3)(layer_key lid \<mapsto> ps(''threshold'' \<mapsto> th))\<rparr>)
        x lbda lid st =
      StepCondatVu_layer ext
        (s3\<lparr>parameter_groups := (parameter_groups s3)(layer_key lid \<mapsto> ps(''threshold'' := None))\<rparr>)
        x lbda lid st"
    by (simp add: StepCondatVu_layer_def StepCondatVu_update_def get_item_def bind_res_def Let_def)
  have h: "StepSubGradTV_layer ext
        (s4\<lparr>parameter_groups := (parameter_groups s4)(layer_key lid \<mapsto> ps(''threshold'' \<mapsto> th))\<rparr>)
        x lbda lid u =
      StepSubGradTV_layer ext
        (s4\<lparr>parameter_groups := (parameter_groups s4)(layer_key lid \<mapsto> ps(''threshold'' := None))\<rparr>)
        x lbda lid u"
    by (simp add: StepSubGradTV_layer_def get_item_def bind_res_def Let_def)
  from a b c d e f g h show ?thesis by blast
qed


text \<open>
  Claim C10. Constructing StepCondatVu or StepSubGradTV with \<^verbatim>\<open>learn_th=True\<close> is
  meant to print a notice, force the flag to \<^verbatim>\<open>False\<close> and let construction and
  evaluation go on. With a base constructor that stores its arguments, the construction
  over \<open>a21\<close> prints the notice and returns a network whose \<^verbatim>\<open>learn_th\<close> is
  \<^verbatim>\<open>False\<close>; the evaluation of that network does not go on: the forward pass raises
  the \<^verbatim>\<open>TypeError\<close> of the call of \<^verbatim>\<open>init_vuz\<close>.
\<close>

theorem learn_th_network_forward_raises:
  "fst (StepCondatVu_init sample_ext sample_super_init (sample_step 1) a21 1 True 100 False
          ''recursive'' None ''learned-Condat-Vu-step'' 0 None) =
     [''In StepIstaLASSO learn_th can't be enable, ignore it.'']
   \<and> (\<exists>net. snd (StepCondatVu_init sample_ext sample_super_init (sample_step 1) a21 1 True 100
                      False ''recursive'' None ''learned-Condat-Vu-step'' 0 None) = Inr net
          \<and> learn_th net = False \<and> n_layers net = 1
          \<and> StepCondatVu_forward sample_ext net x11 1 None =
              Inl (TypeError (''init_vuz() got an unexpected keyword argument ''
                                @ quoted ''inv_A'')))
   \<and> fst (StepSubGradTV_init sample_ext sample_super_init (sample_subgrad 1) a21 1 True False
            100 ''recursive'' None ''learned-TV Sub Gradient'' 0 None) =
     [''In StepSubGradTV learn_th can't be enable, ignore it.'']
   \<and> (\<exists>net. snd (StepSubGradTV_init sample_ext sample_super_init (sample_subgrad 1) a21 1 True
                      False 100 ''recursive'' None ''learned-TV Sub Gradient'' 0 None) = Inr net
          \<and> learn_th net = False \<and> n_layers net = 1
          \<and> StepSubGradTV_forward sample_ext net x11 1 None =
              Inl (TypeError (''init_vuz() missing 1 required positional argument: ''
                                @ quoted ''lbda'')))"
  by (simp add: StepCondatVu_init_def StepSubGradTV_init_def sample_super_init_def Let_def
      StepCondatVu_forward_fails StepSubGradTV_forward_fails check_output_layer_def
      bind_res_Inr)

section \<open>The primal step size\<close>

lemma diff_operator_2: "diff_operator 2 = \<lparr>nrows = 2, ncols = 1, rows = [[-1], [1]]\<rparr>"
  by (simp add: diff_operator_def upt_rec)

lemma frobenius_a21: "frobenius a21 = 1"
  by (simp add: frobenius_def a21_def)

lemma frobenius_d2: "(frobenius (diff_operator 2))\<^sup>2 = 2"
  by (simp add: frobenius_def diff_operator_2)

lemma Coupled_attrs_fields:
  "sigma (CoupledCondatVu_attrs ext self a um) = 0.5"
  "rho (CoupledCondatVu_attrs ext self a um) = 1"
  "l_A (CoupledCondatVu_attrs ext self a um) = (norm2 ext a)\<^sup>2"
  "l_D (CoupledCondatVu_attrs ext self a um) = (norm2 ext (diff_operator (nrows a)))\<^sup>2"
  "tau (CoupledCondatVu_attrs ext self a um) =
     1 / ((norm2 ext a)\<^sup>2 / 2 + 0.5 * ((norm2 ext (diff_operator (nrows a)))\<^sup>2)\<^sup>2)"
  by (simp_all add: CoupledCondatVu_attrs_def Let_def)

lemma Step_attrs_fields:
  "l_A (StepCondatVu_attrs ext self a um) = (norm2 ext a)\<^sup>2"
  "l_D (StepCondatVu_attrs ext self a um) = (norm2 ext (diff_operator (nrows a)))\<^sup>2"
  "A (StepCondatVu_attrs ext self a um) = a"
  "D (StepCondatVu_attrs ext self a um) = diff_operator (nrows a)"
  by (simp_all add: StepCondatVu_attrs_def Let_def)

text \<open>
  Claim C3 says that the primal step size is \<open>1 / (\<parallel>A\<parallel>\<^sup>2 / 2 + \<sigma> \<parallel>D\<parallel>\<^sup>2)\<close>. The
  constructors store \<open>l_D = \<parallel>D\<parallel>\<^sup>2\<close> and the step size squares it once more. For the
  operator \<open>a21\<close>, whose difference operator has norm \<open>\<surd>2\<close>, the step size built is
  \<open>2/5\<close> and not the \<open>2/3\<close> of the claim.
\<close>

theorem tau_claimed_counterexample:
  "tau (CoupledCondatVu_attrs sample_ext sample_coupled a21 False) \<noteq>
     1 / ((norm2 sample_ext a21)\<^sup>2 / 2
          + sigma (CoupledCondatVu_attrs sample_ext sample_coupled a21 False)
            * (norm2 sample_ext (diff_operator 2))\<^sup>2)"
proof -
  have n: "nrows a21 = 2" by (simp add: a21_def)
  have "tau (CoupledCondatVu_attrs sample_ext sample_coupled a21 False) = 2 / 5"
    by (simp add: Coupled_attrs_fields n sample_ext_def frobenius_a21 frobenius_d2)
  moreover have "1 / ((norm2 sample_ext a21)\<^sup>2 / 2
          + sigma (CoupledCondatVu_attrs sample_ext sample_coupled a21 False)
            * (norm2 sample_ext (diff_operator 2))\<^sup>2) = 2 / 3"
    by (simp add: Coupled_attrs_fields sample_ext_def frobenius_a21 frobenius_d2)
  ultimately show ?thesis by simp
qed


text \<open>
  Claim C3, amended. For a mixing operator of nonzero norm, CoupledCondatVu computes at
  construction, with \<open>\<sigma> = 0.5\<close>, the positive step size
  \<open>\<tau> = 1 / (\<parallel>A\<parallel>\<^sup>2 / 2 + \<sigma> (\<parallel>D\<parallel>\<^sup>2)\<^sup>2)\<close>; StepCondatVu stores \<open>l_A = \<parallel>A\<parallel>\<^sup>2\<close> and
  \<open>l_D = \<parallel>D\<parallel>\<^sup>2\<close> at construction, and each of its layers runs its update with its
  clamped \<open>\<sigma>\<close> and with \<open>\<tau> = 1 / (l_A / 2 + \<sigma> l_D\<^sup>2)\<close> computed from it.
\<close>

theorem tau_as_computed:
  assumes "0 < norm2 ext a"
    and "parameter_groups self (layer_key lid) = Some ps" and "ps ''sigma'' = Some (Scalar s)"
  shows "sigma (CoupledCondatVu_attrs ext selfc a um) = 0.5
         \<and> tau (CoupledCondatVu_attrs ext selfc a um) =
             1 / ((norm2 ext a)\<^sup>2 / 2 + 0.5 * ((norm2 ext (diff_operator (nrows a)))\<^sup>2)\<^sup>2)
         \<and> 0 < tau (CoupledCondatVu_attrs ext selfc a um)
         \<and> l_A (StepCondatVu_attrs ext selfs a um) = (norm2 ext a)\<^sup>2
         \<and> l_D (StepCondatVu_attrs ext selfs a um) = (norm2 ext (diff_operator (nrows a)))\<^sup>2
         \<and> StepCondatVu_layer ext self x lbda lid st =
             StepCondatVu_update ext self x lbda (clamp s 0.5 2)
               (1 / (l_A self / 2 + clamp s 0.5 2 * ((l_D self))\<^sup>2)) st"
proof -
  have "0 < (norm2 ext a)\<^sup>2 / 2"
    using assms(1) by simp
  moreover have "0 \<le> 0.5 * ((norm2 ext (diff_operator (nrows a)))\<^sup>2)\<^sup>2"
    by simp
  ultimately have "0 < (norm2 ext a)\<^sup>2 / 2 + 0.5 * ((norm2 ext (diff_operator (nrows a)))\<^sup>2)\<^sup>2"
    by linarith
  then have "0 < tau (CoupledCondatVu_attrs ext selfc a um)"
    by (simp only: Coupled_attrs_fields zero_less_divide_1_iff)
  then show ?thesis
    using StepCondatVu_layer_unfold [OF assms(2,3)]
    by (simp add: Coupled_attrs_fields Step_attrs_fields)
qed

theorem tau_as_computed_witness:
  "0 < norm2 sample_ext a21
   \<and> parameter_groups (sample_step 10) (layer_key 0) = Some (Map.empty(''sigma'' \<mapsto> Scalar 10))
   \<and> (Map.empty(''sigma'' \<mapsto> Scalar 10)) ''sigma'' = Some (Scalar 10)
   \<and> tau (CoupledCondatVu_attrs sample_ext sample_coupled a21 False) = 2 / 5
   \<and> StepCondatVu_layer sample_ext (sample_step 10) x11 0.1 0 (u12, v11, u12, v11) =
       StepCondatVu_update sample_ext (sample_step 10) x11 0.1 2 (2 / 17) (u12, v11, u12, v11)"
proof -
  have h0: "0 < norm2 sample_ext a21"
    by (simp add: sample_ext_def frobenius_a21)
  have h1: "parameter_groups (sample_step 10) (layer_key 0) =
              Some (Map.empty(''sigma'' \<mapsto> Scalar 10))"
    by (simp add: sample_step_def)
  have h2: "(Map.empty(''sigma'' \<mapsto> Scalar 10)) ''sigma'' = Some (Scalar 10)"
    by simp
  have c: "clamp 10 0.5 2 = 2"
    by (simp add: clamp_def)
  have t: "1 / (l_A (sample_step 10) / 2 + 2 * (l_D (sample_step 10))\<^sup>2) = 2 / 17"
    by (simp add: sample_step_def)
  have n: "nrows a21 = 2" by (simp add: a21_def)
  have v: "1 / ((norm2 sample_ext a21)\<^sup>2 / 2
                + 0.5 * ((norm2 sample_ext (diff_operator (nrows a21)))\<^sup>2)\<^sup>2) = 2 / 5"
    by (simp add: n sample_ext_def frobenius_a21 frobenius_d2)
  note w = tau_as_computed [OF h0 h1 h2, where selfc = sample_coupled and um = False
      and x = x11 and lbda = "0.1" and st = "(u12, v11, u12, v11)"]
  have e1: "tau (CoupledCondatVu_attrs sample_ext sample_coupled a21 False) =
              1 / ((norm2 sample_ext a21)\<^sup>2 / 2
                + 0.5 * ((norm2 sample_ext (diff_operator (nrows a21)))\<^sup>2)\<^sup>2)"
    using w by blast
  have e2: "StepCondatVu_layer sample_ext (sample_step 10) x11 0.1 0 (u12, v11, u12, v11) =
             StepCondatVu_update sample_ext (sample_step 10) x11 0.1 (clamp 10 0.5 2)
               (1 / (l_A (sample_step 10) / 2 + clamp 10 0.5 2 * (l_D (sample_step 10))\<^sup>2))
               (u12, v11, u12, v11)"
    using w by blast
  show ?thesis
    using h0 h1 h2 e1 [unfolded v] e2 [unfolded c t] by blast
qed

section \<open>The modes of the nested proximal network\<close>

lemma none_in_set: "learn_prox self = LEARN_PROX_FALSE \<Longrightarrow>
    learn_prox self \<in> {LEARN_PROX_GLOBAL, LEARN_PROX_FALSE} \<and> learn_prox self \<noteq> LEARN_PROX_GLOBAL"
  by (simp add: LEARN_PROX_FALSE_def LEARN_PROX_GLOBAL_def)

text \<open>
  Claim C4 says that \<^verbatim>\<open>learn_prox = 'none'\<close> fails at construction. On a network
  in that mode \<^verbatim>\<open>get_global_parameters\<close> returns normally.
\<close>

theorem learn_prox_none_counterexample:
  "\<not> isl (get_global_parameters sample_ext (sample_lista_tv LEARN_PROX_FALSE None) Map.empty)"
  by (simp add: get_global_parameters_def sample_lista_tv_def sample_ext_def
      LEARN_PROX_FALSE_def LEARN_PROX_GLOBAL_def bind_res_def Let_def)

text \<open>
  Claim C4, amended. With \<^verbatim>\<open>learn_prox = 'none'\<close> the hook
  \<^verbatim>\<open>get_global_parameters\<close> builds one shared nested network and registers none of
  its parameters; it fails only if the constructor of the nested network fails. With a
  value outside \<^verbatim>\<open>['none', 'global', 'per-layer']\<close> it raises
  \<^verbatim>\<open>NotImplementedError\<close> with a message that lists the three allowed values.
\<close>

theorem learn_prox_modes:
  "(learn_prox self = LEARN_PROX_FALSE \<longrightarrow>
      get_global_parameters ext self ip =
        bind_res (ListaLASSO ext
                    \<lparr>lasso_A = I_k self, lasso_n_layers = n_inner_layers self,
                     lasso_learn_th = True, lasso_name = ''Prox-TV-Lista'',
                     lasso_initial_parameters =
                       Some (unravel_group_params ext (get_default ip ''prox'' Map.empty)),
                     lasso_device = device self\<rparr>)
          (\<lambda>net. Inr (self\<lparr>prox_tv := Some (Shared net)\<rparr>)))
   \<and> (learn_prox self \<notin> set ALL_LEARN_PROX \<longrightarrow>
      get_global_parameters ext self ip =
        Inl (NotImplementedError
               (''Parameter learn_prox should be in ['none', 'global', 'per-layer']. Got ''
                  @ quoted (learn_prox self) @ ''.'')))"
proof (intro conjI impI)
  assume n: "learn_prox self = LEARN_PROX_FALSE"
  show "get_global_parameters ext self ip =
        bind_res (ListaLASSO ext
                    \<lparr>lasso_A = I_k self, lasso_n_layers = n_inner_layers self,
                     lasso_learn_th = True, lasso_name = ''Prox-TV-Lista'',
                     lasso_initial_parameters =
                       Some (unravel_group_params ext (get_default ip ''prox'' Map.empty)),
                     lasso_device = device self\<rparr>)
          (\<lambda>net. Inr (self\<lparr>prox_tv := Some (Shared net)\<rparr>))"
    using none_in_set [OF n]
    by (simp add: get_global_parameters_def Let_def n)
next
  assume o: "learn_prox self \<notin> set ALL_LEARN_PROX"
  then have "learn_prox self \<notin> {LEARN_PROX_GLOBAL, LEARN_PROX_FALSE}"
    and "learn_prox self \<noteq> LEARN_PROX_PER_LAYER"
    by (simp_all add: ALL_LEARN_PROX_def)
  moreover have "learn_prox_message lp =
      ''Parameter learn_prox should be in ['none', 'global', 'per-layer']. Got '' @ quoted lp @ ''.''" for lp
    by (simp add: learn_prox_message_def repr_list_def ALL_LEARN_PROX_def quoted_def
        LEARN_PROX_FALSE_def LEARN_PROX_GLOBAL_def LEARN_PROX_PER_LAYER_def)
  ultimately show "get_global_parameters ext self ip =
        Inl (NotImplementedError
               (''Parameter learn_prox should be in ['none', 'global', 'per-layer']. Got ''
                  @ quoted (learn_prox self) @ ''.''))"
    by (simp add: get_global_parameters_def)
qed


theorem learn_prox_modes_witness:
  "learn_prox (sample_lista_tv LEARN_PROX_FALSE None) = LEARN_PROX_FALSE
   \<and> get_global_parameters sample_ext (sample_lista_tv LEARN_PROX_FALSE None) Map.empty =
       Inr ((sample_lista_tv LEARN_PROX_FALSE None)\<lparr>prox_tv := Some (Shared sample_net)\<rparr>)
   \<and> learn_prox (sample_lista_tv ''sometimes'' None) \<notin> set ALL_LEARN_PROX
   \<and> get_global_parameters sample_ext (sample_lista_tv ''sometimes'' None) Map.empty =
       Inl (NotImplementedError
              (''Parameter learn_prox should be in ['none', 'global', 'per-layer']. Got ''
                 @ quoted ''sometimes'' @ ''.''))"
proof -
  have h1: "learn_prox (sample_lista_tv LEARN_PROX_FALSE None) = LEARN_PROX_FALSE"
    by (simp add: sample_lista_tv_def)
  have h2: "learn_prox (sample_lista_tv ''sometimes'' None) \<notin> set ALL_LEARN_PROX"
    by (simp add: sample_lista_tv_def ALL_LEARN_PROX_def LEARN_PROX_FALSE_def
        LEARN_PROX_GLOBAL_def LEARN_PROX_PER_LAYER_def)
  have l: "learn_prox (sample_lista_tv ''sometimes'' None) = ''sometimes''"
    by (simp add: sample_lista_tv_def)
  have b: "bind_res (ListaLASSO sample_ext
                    \<lparr>lasso_A = I_k (sample_lista_tv LEARN_PROX_FALSE None),
                     lasso_n_layers = n_inner_layers (sample_lista_tv LEARN_PROX_FALSE None),
                     lasso_learn_th = True, lasso_name = ''Prox-TV-Lista'',
                     lasso_initial_parameters =
                       Some (unravel_group_params sample_ext
                               (get_default Map.empty ''prox'' Map.empty)),
                     lasso_device = device (sample_lista_tv LEARN_PROX_FALSE None)\<rparr>)
          (\<lambda>net. Inr ((sample_lista_tv LEARN_PROX_FALSE None)\<lparr>prox_tv := Some (Shared net)\<rparr>)) =
        Inr ((sample_lista_tv LEARN_PROX_FALSE None)\<lparr>prox_tv := Some (Shared sample_net)\<rparr>)"
    by (simp add: sample_ext_def sample_net_def sample_lista_tv_def bind_res_def)
  have e1: "get_global_parameters sample_ext (sample_lista_tv LEARN_PROX_FALSE None) Map.empty =
       Inr ((sample_lista_tv LEARN_PROX_FALSE None)\<lparr>prox_tv := Some (Shared sample_net)\<rparr>)"
    using learn_prox_modes [of "sample_lista_tv LEARN_PROX_FALSE None" sample_ext Map.empty,
        THEN conjunct1, THEN mp, OF h1]
    by (simp only: b)
  have e2: "get_global_parameters sample_ext (sample_lista_tv ''sometimes'' None) Map.empty =
       Inl (NotImplementedError
              (''Parameter learn_prox should be in ['none', 'global', 'per-layer']. Got ''
                 @ quoted ''sometimes'' @ ''.''))"
    using learn_prox_modes [of "sample_lista_tv ''sometimes'' None" sample_ext Map.empty,
        THEN conjunct2, THEN mp, OF h2]
    by (simp only: l)
  show ?thesis
    using h1 h2 e1 e2 by blast
qed

section \<open>The closed form of the initialiser\<close>

lemma v_to_u_ok:
  assumes "ncols (pinverse ext a) = nrows d" and "ncols v = ncols d"
    and "nrows x = nrows v" and "ncols x = nrows (pinverse ext a)"
  shows "v_to_u ext v x lbda (Some a) (Some d) None None dev = Inr (u_closed ext a d x lbda v)"
  using assms
  by (simp add: v_to_u_def u_closed_def Psi_closed_def check_tensor_def matmul_ok tsub_ok
      bind_res_Inr shape_simps)

lemma v_default_cases:
  "0 < nrows a \<Longrightarrow>
   (case v0 of None \<Rightarrow> zeros (int (nrows x)) (int (nrows a) - 1) | Some v \<Rightarrow> Inr v) =
     Inr (v_default a x v0)"
  by (cases v0) (simp_all add: v_default_def zeros_def nat_diff_distrib')

text \<open>
  Claim C1. For operators of matching shapes (\<open>A\<close> with at least one row, \<open>D\<close> with
  the rows of \<open>A\<close> and one column less than \<open>A\<close> has rows, the pseudo-inverse of the
  shape of \<open>A\<^sup>T\<close>, and \<open>x\<close> with the columns of \<open>A\<close>) and a dual variable \<open>v\<close>,
  the zero tensor when none is supplied, with the rows of \<open>x\<close>, the initialiser
  returns \<open>(v, u, z)\<close> with \<open>u = (x - \<lambda> v \<Psi>\<^sup>T) A\<^sup>+\<close>, \<open>\<Psi> = A\<^sup>+ D\<close> and
  \<open>z = [u[:, 0], u D]\<close>, as tensors or, on request, as arrays of the same entries.
\<close>

theorem init_vuz_closed_form:
  assumes "nrows (pinverse ext a) = ncols a" and "ncols (pinverse ext a) = nrows a"
    and "nrows d = nrows a" and "ncols d = nrows a - 1" and "0 < nrows a"
    and "ncols x = ncols a"
    and "nrows (v_default a x v0) = nrows x" and "ncols (v_default a x v0) = nrows a - 1"
  shows "init_vuz ext a d x lbda v0 dev fn =
           Inr (v_default a x v0,
                u_closed ext a d x lbda (v_default a x v0),
                z_closed (u_closed ext a d x lbda (v_default a x v0)) d)"
proof -
  let ?v = "v_default a x v0"
  let ?u = "u_closed ext a d x lbda ?v"
  have u: "v_to_u ext ?v x lbda (Some a) (Some d) None None dev = Inr ?u"
    using assms by (intro v_to_u_ok) simp_all
  have su: "nrows ?u = nrows x" "ncols ?u = nrows a"
    using assms by (simp_all add: u_closed_def shape_simps)
  have c: "first_column ?u = Inr (first_col ?u)"
    using su assms(5) by (simp add: first_column_def)
  have m: "matmul ?u d = Inr (mm ?u d)"
    using su assms(3) by (simp add: matmul_ok)
  have k: "cat1 (first_col ?u) (mm ?u d) = Inr (z_closed ?u d)"
    by (simp add: cat1_def z_closed_def shape_simps)
  show ?thesis
    by (simp add: init_vuz_def Let_def v_default_cases [OF assms(5)] u c m k bind_res_Inr
        atleast_2d_def)
qed


lemma upt_2: "[0..<2] = [0, Suc 0]"
  by (simp add: upt_rec)

lemmas eval_tensor = mm_def tr_def columns_def dot_def zipw_def smul_def sdiv_def sign_def
  hcat_def first_col_def zeros_t_def cumsum_def upt_2

theorem init_vuz_closed_form_witness:
  "nrows (pinverse sample_ext a21) = ncols a21 \<and> ncols (pinverse sample_ext a21) = nrows a21
   \<and> nrows (diff_operator 2) = nrows a21 \<and> ncols (diff_operator 2) = nrows a21 - 1
   \<and> 0 < nrows a21 \<and> ncols x11 = ncols a21
   \<and> nrows (v_default a21 x11 None) = nrows x11
   \<and> ncols (v_default a21 x11 None) = nrows a21 - 1
   \<and> init_vuz sample_ext a21 (diff_operator 2) x11 0.1 None None False =
       Inr (\<lparr>nrows = 1, ncols = 1, rows = [[0]]\<rparr>,
            \<lparr>nrows = 1, ncols = 2, rows = [[3, 0]]\<rparr>,
            \<lparr>nrows = 1, ncols = 2, rows = [[3, -3]]\<rparr>)"
proof -
  have h1: "nrows (pinverse sample_ext a21) = ncols a21"
    and h2: "ncols (pinverse sample_ext a21) = nrows a21"
    by (simp_all add: sample_ext_def tr_def)
  have h3: "nrows (diff_operator 2) = nrows a21"
    and h4: "ncols (diff_operator 2) = nrows a21 - 1"
    by (simp_all add: diff_operator_2 a21_def)
  have h5: "0 < nrows a21" and h6: "ncols x11 = ncols a21"
    by (simp_all add: a21_def x11_def)
  have v: "v_default a21 x11 None = \<lparr>nrows = 1, ncols = 1, rows = [[0]]\<rparr>"
    by (simp add: v_default_def zeros_t_def a21_def x11_def)
  have h7: "nrows (v_default a21 x11 None) = nrows x11"
    and h8: "ncols (v_default a21 x11 None) = nrows a21 - 1"
    unfolding v by (simp_all add: a21_def x11_def)
  have u: "u_closed sample_ext a21 (diff_operator 2) x11 0.1 \<lparr>nrows = 1, ncols = 1, rows = [[0]]\<rparr> =
             \<lparr>nrows = 1, ncols = 2, rows = [[3, 0]]\<rparr>"
    by (simp add: u_closed_def Psi_closed_def sample_ext_def diff_operator_2 a21_def x11_def
        eval_tensor)
  have z: "z_closed \<lparr>nrows = 1, ncols = 2, rows = [[3, 0]]\<rparr> (diff_operator 2) =
             \<lparr>nrows = 1, ncols = 2, rows = [[3, -3]]\<rparr>"
    by (simp add: z_closed_def diff_operator_2 eval_tensor)
  show ?thesis
    using init_vuz_closed_form [OF h1 h2 h3 h4 h5 h6 h7 h8, of "0.1" None False]
      h1 h2 h3 h4 h5 h6 h7 h8
    by (simp only: v u z simp_thms)
qed

section \<open>The sub-gradient layer\<close>

lemma wf_mm: "length (rows a) = nrows a \<Longrightarrow> wf_tensor (mm a b)"
  by (simp add: wf_tensor_def mm_def columns_def list_all_iff)

lemma wf_smul: "wf_tensor a \<Longrightarrow> wf_tensor (smul c a)"
  by (simp add: wf_tensor_def smul_def list_all_iff)

lemma wf_sign: "wf_tensor a \<Longrightarrow> wf_tensor (sign a)"
  by (simp add: wf_tensor_def sign_def list_all_iff)

lemma wf_zipw:
  assumes "wf_tensor a" and "wf_tensor b" and "nrows a = nrows b" and "ncols a = ncols b"
  shows "wf_tensor (zipw f a b)"
  using assms
  by (auto simp: wf_tensor_def zipw_def list_all_iff dest!: set_zip_leftD set_zip_rightD
      elim!: in_set_zipE)

lemma map2_sub_zero_row:
  "length r = length g \<Longrightarrow> map2 (-) r (map (\<lambda>e. 0 * e) g) = (r :: real list)"
  by (induction r g rule: list_induct2) simp_all

lemma map2_sub_zero_rows:
  "length rs = length gs \<Longrightarrow> list_all (\<lambda>r. length r = m) rs \<Longrightarrow> list_all (\<lambda>r. length r = m) gs \<Longrightarrow>
   map2 (map2 (-)) rs (map (map (\<lambda>e. 0 * e)) gs) = (rs :: real list list)"
  by (induction rs gs rule: list_induct2) (simp_all add: map2_sub_zero_row)

lemma zero_step:
  assumes "wf_tensor u" and "wf_tensor g" and "nrows g = nrows u" and "ncols g = ncols u"
  shows "zipw (-) u (smul 0 g) = u"
proof -
  have "map2 (map2 (-)) (rows u) (map (map (\<lambda>e. 0 * e)) (rows g)) = rows u"
    using assms by (intro map2_sub_zero_rows [where m = "ncols u"]) (simp_all add: wf_tensor_def)
  then show ?thesis
    by (simp add: zipw_def smul_def)
qed

lemma StepSubGradTV_layer_ok:
  assumes "parameter_groups self (layer_key lid) = Some ps"
    and "ps ''step_size'' = Some (Scalar s)"
    and "ncols u = nrows (A_t self)" and "nrows x = nrows u" and "ncols x = ncols (A_t self)"
    and "nrows (D_t self) = ncols u"
  shows "StepSubGradTV_layer ext self x lbda lid u =
           Inr (spec_subgrad s lbda (A_t self) (D_t self) x u)"
  using assms
  by (simp add: StepSubGradTV_layer_def spec_subgrad_def get_item_def as_scalar_def matmul_ok
      tsub_ok tadd_ok bind_res_Inr shape_simps)

lemma spec_subgrad_zero:
  assumes "wf_tensor u" and "wf_tensor x"
    and "ncols u = nrows a" and "nrows x = nrows u" and "ncols x = ncols a"
    and "nrows d = ncols u"
  shows "spec_subgrad 0 lbda a d x u = u"
proof -
  let ?r = "mm (zipw (-) (mm u a) x) (tr a)"
  let ?q = "mm (sign (mm u d)) (tr d)"
  have lu: "length (rows u) = nrows u"
    using assms(1) by (simp add: wf_tensor_def)
  have "wf_tensor (mm u a)"
    using lu by (rule wf_mm)
  then have "wf_tensor (zipw (-) (mm u a) x)"
    using assms by (intro wf_zipw) (simp_all add: shape_simps)
  then have r: "wf_tensor ?r"
    by (intro wf_mm) (simp add: wf_tensor_def)
  have "wf_tensor (sign (mm u d))"
    using lu by (intro wf_sign wf_mm)
  then have q: "wf_tensor ?q"
    by (intro wf_mm) (simp add: wf_tensor_def)
  have g: "wf_tensor (zipw (+) ?r (smul lbda ?q))"
    using r q assms by (intro wf_zipw wf_smul) (simp_all add: shape_simps)
  show ?thesis
    unfolding spec_subgrad_def
    using assms by (intro zero_step g) (simp_all add: shape_simps)
qed

text \<open>
  Claim C9. A layer of StepSubGradTV with step size \<open>s\<close>, on operands of matching
  shapes, returns \<open>u - s [(u A - x) A\<^sup>T + \<lambda> sign(u D) D\<^sup>T]\<close>; the step size is
  initialised to \<open>10\<^sup>-\<^sup>1\<^sup>0\<close>; and with step size 0 the layer returns \<open>u\<close> itself.
\<close>

theorem StepSubGradTV_layer_step:
  assumes "parameter_groups self (layer_key lid) = Some ps"
    and "ps ''step_size'' = Some (Scalar s)"
    and "ncols u = nrows (A_t self)" and "nrows x = nrows u" and "ncols x = ncols (A_t self)"
    and "nrows (D_t self) = ncols u"
  shows "StepSubGradTV_layer ext self x lbda lid u =
           Inr (spec_subgrad s lbda (A_t self) (D_t self) x u)
         \<and> StepSubGradTV_get_initial_layer_parameters selfi lidi ''step_size'' =
             Some (Scalar (1 / 10 ^ 10))
         \<and> (s = 0 \<and> wf_tensor u \<and> wf_tensor x \<longrightarrow>
              StepSubGradTV_layer ext self x lbda lid u = Inr u)"
proof -
  have a: "StepSubGradTV_layer ext self x lbda lid u =
           Inr (spec_subgrad s lbda (A_t self) (D_t self) x u)"
    using assms by (rule StepSubGradTV_layer_ok)
  have b: "StepSubGradTV_get_initial_layer_parameters selfi lidi ''step_size'' =
             Some (Scalar (1 / 10 ^ 10))"
    by (simp add: StepSubGradTV_get_initial_layer_parameters_def Let_def)
  have c: "StepSubGradTV_layer ext self x lbda lid u = Inr u"
    if "s = 0" and "wf_tensor u" and "wf_tensor x"
    using a that spec_subgrad_zero [OF that(2,3) assms(3,4,5,6)] by simp
  from a b c show ?thesis by blast
qed

lemma wf_samples: "wf_tensor u12" "wf_tensor x11"
  by (simp_all add: wf_tensor_def u12_def x11_def)

lemma sample_subgrad_half:
  "spec_subgrad (1 / 2) 1 a21 (diff_operator 2) x11 u12 =
     \<lparr>nrows = 1, ncols = 2, rows = [[5 / 2, 3 / 2]]\<rparr>"
  by (simp add: spec_subgrad_def a21_def diff_operator_2 x11_def u12_def eval_tensor)

theorem StepSubGradTV_layer_step_witness:
  "parameter_groups (sample_subgrad 0) (layer_key 0) = Some (Map.empty(''step_size'' \<mapsto> Scalar 0))
   \<and> (Map.empty(''step_size'' \<mapsto> Scalar 0)) ''step_size'' = Some (Scalar 0)
   \<and> ncols u12 = nrows (A_t (sample_subgrad 0)) \<and> nrows x11 = nrows u12
   \<and> ncols x11 = ncols (A_t (sample_subgrad 0)) \<and> nrows (D_t (sample_subgrad 0)) = ncols u12
   \<and> wf_tensor u12 \<and> wf_tensor x11
   \<and> StepSubGradTV_layer sample_ext (sample_subgrad 0) x11 1 0 u12 = Inr u12
   \<and> StepSubGradTV_layer sample_ext (sample_subgrad (1 / 2)) x11 1 0 u12 =
       Inr \<lparr>nrows = 1, ncols = 2, rows = [[5 / 2, 3 / 2]]\<rparr>"
proof -
  have h1: "parameter_groups (sample_subgrad 0) (layer_key 0) =
              Some (Map.empty(''step_size'' \<mapsto> Scalar 0))"
    by (simp add: sample_subgrad_def)
  have h2: "(Map.empty(''step_size'' \<mapsto> Scalar 0)) ''step_size'' = Some (Scalar 0)"
    by simp
  have h3: "ncols u12 = nrows (A_t (sample_subgrad 0))"
    and h4: "nrows x11 = nrows u12"
    and h5: "ncols x11 = ncols (A_t (sample_subgrad 0))"
    and h6: "nrows (D_t (sample_subgrad 0)) = ncols u12"
    by (simp_all add: sample_subgrad_def u12_def x11_def a21_def diff_operator_2)
  have k1: "parameter_groups (sample_subgrad (1 / 2)) (layer_key 0) =
              Some (Map.empty(''step_size'' \<mapsto> Scalar (1 / 2)))"
    by (simp add: sample_subgrad_def)
  have k2: "(Map.empty(''step_size'' \<mapsto> Scalar (1 / 2))) ''step_size'' = Some (Scalar (1 / 2))"
    by simp
  have k3: "ncols u12 = nrows (A_t (sample_subgrad (1 / 2)))"
    and k5: "ncols x11 = ncols (A_t (sample_subgrad (1 / 2)))"
    and k6: "nrows (D_t (sample_subgrad (1 / 2))) = ncols u12"
    by (simp_all add: sample_subgrad_def u12_def x11_def a21_def diff_operator_2)
  have f: "A_t (sample_subgrad (1 / 2)) = a21" "D_t (sample_subgrad (1 / 2)) = diff_operator 2"
    by (simp_all add: sample_subgrad_def)
  have e: "StepSubGradTV_layer sample_ext (sample_subgrad (1 / 2)) x11 1 0 u12 =
             Inr \<lparr>nrows = 1, ncols = 2, rows = [[5 / 2, 3 / 2]]\<rparr>"
    using StepSubGradTV_layer_step [OF k1 k2 k3 h4 k5 k6, of sample_ext 1, THEN conjunct1]
    by (simp only: f sample_subgrad_half)
  show ?thesis
    using StepSubGradTV_layer_step [OF h1 h2 h3 h4 h5 h6, of sample_ext 1]
      h1 h2 h3 h4 h5 h6 wf_samples e
    by blast
qed

section \<open>The ListaTV layer\<close>

text \<open>The model of \<^verbatim>\<open>torch.cumsum(z, dim=1)\<close> sums each row from its first entry.\<close>

lemma cumsum_from_nth:
  "j < length r \<Longrightarrow> cumsum_from s r ! j = s + sum_list (take (Suc j) r)"
proof (induction r arbitrary: s j)
  case Nil
  then show ?case by simp
next
  case (Cons e es)
  then show ?case by (cases j) (simp_all add: add.assoc)
qed

lemma select_prox_instance:
  "spec_prox_instance self lid = Some net \<Longrightarrow> select_prox self lid = Inr (Shared net)"
  by (auto simp: spec_prox_instance_def select_prox_def
      split: if_splits option.splits prox_attr.splits)

lemma threshold_default:
  "spec_threshold dflt ps = Some th \<Longrightarrow> as_scalar (get_default ps ''threshold'' (Scalar dflt)) = Inr th"
  by (auto simp: spec_threshold_def get_default_def as_scalar_def split: option.splits pval.splits)

text \<open>
  Claim C6. A layer of ListaTV, on operands of matching shapes, computes \<open>u Wu + x Wx\<close>,
  hands it with \<open>\<lambda>\<close> times the layer's threshold to the nested network (the layer's
  own instance in per-layer mode, the shared one otherwise), and returns the cumulative sum
  of what the nested network returns, or the nested network's failure.
\<close>

theorem ListaTV_layer_transition:
  assumes "parameter_groups self (layer_key lid) = Some ps"
    and "ps ''Wx'' = Some (Matrix wx)" and "ps ''Wu'' = Some (Matrix wu)"
    and "0 < l_lip self" and "spec_threshold (1 / l_lip self) ps = Some th"
    and "spec_prox_instance self lid = Some net"
    and "ncols u = nrows wu" and "ncols x = nrows wx"
    and "nrows x = nrows u" and "ncols wx = ncols wu"
  shows "ListaTV_layer ext self x lbda lid u =
           bind_res (lasso_call ext net (spec_affine u wu x wx) (lbda * th))
             (\<lambda>z. Inr (cumsum z))"
  using assms(1,2,3,7,8,9,10) select_prox_instance [OF assms(6)] threshold_default [OF assms(5)]
  by (simp add: ListaTV_layer_def spec_affine_def get_item_def as_matrix_def matmul_ok tadd_ok
      call_prox_def bind_res_Inr shape_simps Let_def)

lemma eye_2: "eye 2 = \<lparr>nrows = 2, ncols = 2, rows = [[1, 0], [0, 1]]\<rparr>"
  by (simp add: eye_def upt_2)

theorem ListaTV_layer_transition_witness:
  "parameter_groups (sample_lista_tv LEARN_PROX_GLOBAL (Some (Shared sample_net))) (layer_key 0) =
     Some (Map.empty(''Wu'' \<mapsto> Matrix (eye 2), ''Wx'' \<mapsto> Matrix (tr a21),
                     ''threshold'' \<mapsto> Scalar 1))
   \<and> 0 < l_lip (sample_lista_tv LEARN_PROX_GLOBAL (Some (Shared sample_net)))
   \<and> spec_prox_instance (sample_lista_tv LEARN_PROX_GLOBAL (Some (Shared sample_net))) 0 =
       Some sample_net
   \<and> ncols u12 = nrows (eye 2) \<and> ncols x11 = nrows (tr a21) \<and> nrows x11 = nrows u12
   \<and> ncols (tr a21) = ncols (eye 2)
   \<and> ListaTV_layer sample_ext (sample_lista_tv LEARN_PROX_GLOBAL (Some (Shared sample_net)))
         x11 1 0 u12 =
       Inr \<lparr>nrows = 1, ncols = 2, rows = [[4, 6]]\<rparr>"
proof -
  let ?net = "sample_lista_tv LEARN_PROX_GLOBAL (Some (Shared sample_net))"
  let ?ps = "Map.empty(''Wu'' \<mapsto> Matrix (eye 2), ''Wx'' \<mapsto> Matrix (tr a21),
                       ''threshold'' \<mapsto> Scalar 1)"
  have h1: "parameter_groups ?net (layer_key 0) = Some ?ps"
    by (simp add: sample_lista_tv_def)
  have h2: "?ps ''Wx'' = Some (Matrix (tr a21))" and h3: "?ps ''Wu'' = Some (Matrix (eye 2))"
    by simp_all
  have h4: "0 < l_lip ?net"
    by (simp add: sample_lista_tv_def)
  have h5: "spec_threshold (1 / l_lip ?net) ?ps = Some 1"
    by (simp add: spec_threshold_def)
  have h6: "spec_prox_instance ?net 0 = Some sample_net"
    by (simp add: spec_prox_instance_def sample_lista_tv_def LEARN_PROX_GLOBAL_def
        LEARN_PROX_PER_LAYER_def)
  have h7: "ncols u12 = nrows (eye 2)" and h8: "ncols x11 = nrows (tr a21)"
    and h9: "nrows x11 = nrows u12" and h10: "ncols (tr a21) = ncols (eye 2)"
    by (simp_all add: u12_def x11_def a21_def eye_2 tr_def)
  have v: "spec_affine u12 (eye 2) x11 (tr a21) = \<lparr>nrows = 1, ncols = 2, rows = [[4, 2]]\<rparr>"
    by (simp add: spec_affine_def u12_def x11_def a21_def eye_2 eval_tensor)
  have c: "bind_res (lasso_call sample_ext sample_net \<lparr>nrows = 1, ncols = 2, rows = [[4, 2]]\<rparr> (1 * 1))
             (\<lambda>z. Inr (cumsum z)) = Inr \<lparr>nrows = 1, ncols = 2, rows = [[4, 6]]\<rparr>"
    by (simp add: sample_ext_def bind_res_def cumsum_def)
  have e: "ListaTV_layer sample_ext ?net x11 1 0 u12 = Inr \<lparr>nrows = 1, ncols = 2, rows = [[4, 6]]\<rparr>"
    using ListaTV_layer_transition [OF h1 h2 h3 h4 h5 h6 h7 h8 h9 h10, of sample_ext 1]
    by (simp only: v c)
  show ?thesis
    using h1 h4 h6 h7 h8 h9 h10 e by blast
qed

section \<open>The coupled Condat-Vu layer\<close>

lemma map2_nest:
  assumes "\<And>x y z. F x (G (p y) (q z)) = H (K x (p' y)) (q' z)"
  shows "map2 F xs (map2 G (map p ys) (map q zs)) = map2 H (map2 K xs (map p' ys)) (map q' zs)"
proof (induction xs arbitrary: ys zs)
  case Nil
  then show ?case by simp
next
  case (Cons x xs)
  show ?case
  proof (cases ys)
    case Nil
    then show ?thesis by simp
  next
    case ys: (Cons y ys')
    show ?thesis
    proof (cases zs)
      case Nil
      then show ?thesis by (simp add: ys)
    next
      case (Cons z zs')
      then show ?thesis by (simp add: ys assms Cons.IH)
    qed
  qed
qed

lemma descent_row:
  "map2 (+) r (map2 (-) (map (\<lambda>e. - (t * e)) g) (map ((*) t) w)) =
   map2 (-) (map2 (-) r (map ((*) t) g)) (map ((*) t) (w :: real list))"
  by (rule map2_nest) simp

lemma descent_rows:
  "map2 (map2 (+)) rs (map2 (map2 (-)) (map (map (\<lambda>e. - (t * e))) gs) (map (map ((*) t)) ws)) =
   map2 (map2 (-)) (map2 (map2 (-)) rs (map (map ((*) t)) gs))
     (map (map ((*) t)) (ws :: real list list))"
  by (rule map2_nest) (rule descent_row)

lemma descent_tensor:
  "zipw (+) u (zipw (-) (smul (- t) g) (smul t w)) = zipw (-) (zipw (-) u (smul t g)) (smul t w)"
  by (simp add: zipw_def smul_def descent_rows)

text \<open>
  Claim C7. A layer of CoupledCondatVu, on operands of matching shapes and when the
  soft-thresholding kernel returns a tensor \<open>t\<close> of the shape of \<open>v_old\<close>, computes
  \<open>u_new = u_old - \<tau> (u_old A - x) A\<^sup>T - \<tau> v_old W\<^sup>T\<close>,
  \<open>v_ = v_old + \<sigma> (2 u_new - u_old) W\<close> and \<open>v_new = v_ - \<sigma> t\<close> with
  \<open>t = SoftThreshold(v_ / \<sigma>, \<lambda> threshold, 1 / \<sigma>)\<close>, then
  \<open>u = \<rho> u_new + (1 - \<rho>) u_old\<close> and \<open>v = \<rho> v_new + (1 - \<rho>) v_old\<close>, and carries
  \<open>u\<close> and \<open>v\<close> to the next layer as its \<open>u_old\<close> and \<open>v_old\<close>.
\<close>

theorem CoupledCondatVu_layer_update:
  fixes u_new v_mid :: tensor
  assumes "parameter_groups self (layer_key lid) = Some ps"
    and "ps ''W_coupled'' = Some (Matrix w)"
    and "spec_threshold 1 ps = Some th"
    and "0 < sigma self"
    and "ncols u_old = nrows (A_t self)" and "nrows x = nrows u_old"
    and "ncols x = ncols (A_t self)"
    and "nrows w = ncols u_old" and "nrows v_old = nrows u_old" and "ncols v_old = ncols w"
    and "u_new = spec_u_new (tau self) (A_t self) w x u_old v_old"
    and "v_mid = spec_v_mid (sigma self) w u_new u_old v_old"
    and "pseudo_soft_th_tensor ext (sdiv v_mid (sigma self)) (lbda * th) (1 / sigma self) = Inr t"
    and "nrows t = nrows v_old" and "ncols t = ncols v_old"
  shows "CoupledCondatVu_layer ext self x lbda lid (u, v, u_old, v_old) =
           Inr (spec_relax (rho self) u_new u_old,
                spec_relax (rho self) (spec_v_new (sigma self) v_mid t) v_old,
                spec_relax (rho self) u_new u_old,
                spec_relax (rho self) (spec_v_new (sigma self) v_mid t) v_old)"
proof -
  let ?a = "A_t self"
  let ?g = "mm (zipw (-) (mm u_old ?a) x) (tr ?a)"
  let ?vw = "mm v_old (tr w)"
  have s1: "matmul u_old ?a = Inr (mm u_old ?a)"
    using assms(5) by (rule matmul_ok)
  have s2: "tsub (mm u_old ?a) x = Inr (zipw (-) (mm u_old ?a) x)"
    using assms(6,7) by (simp add: tsub_ok shape_simps)
  have s3: "matmul (zipw (-) (mm u_old ?a) x) (tr ?a) = Inr ?g"
    by (simp add: matmul_ok shape_simps)
  have s4: "matmul v_old (tr w) = Inr ?vw"
    using assms(10) by (simp add: matmul_ok shape_simps)
  have s5: "tsub (smul (- tau self) ?g) (smul (tau self) ?vw) =
              Inr (zipw (-) (smul (- tau self) ?g) (smul (tau self) ?vw))"
    using assms(5,8,9) by (simp add: tsub_ok shape_simps)
  have s6: "tadd u_old (zipw (-) (smul (- tau self) ?g) (smul (tau self) ?vw)) = Inr u_new"
    using assms(5,8)
    by (simp add: tadd_ok shape_simps descent_tensor assms(11) spec_u_new_def)
  have su: "nrows u_new = nrows u_old" "ncols u_new = ncols u_old"
    by (simp_all add: assms(11) spec_u_new_def shape_simps)
  have s7: "tsub (smul 2 u_new) u_old = Inr (zipw (-) (smul 2 u_new) u_old)"
    using su by (simp add: tsub_ok shape_simps)
  have s8: "matmul (zipw (-) (smul 2 u_new) u_old) w = Inr (mm (zipw (-) (smul 2 u_new) u_old) w)"
    using su assms(8) by (simp add: matmul_ok shape_simps)
  have s9: "tadd v_old (smul (sigma self) (mm (zipw (-) (smul 2 u_new) u_old) w)) = Inr v_mid"
    using su assms(9,10) by (simp add: tadd_ok shape_simps assms(12) spec_v_mid_def)
  have sv: "nrows v_mid = nrows v_old" "ncols v_mid = ncols v_old"
    by (simp_all add: assms(12) spec_v_mid_def shape_simps)
  have s10: "as_scalar (get_default ps ''threshold'' (Scalar 1)) = Inr th"
    using assms(3) by (rule threshold_default)
  have s11: "tsub v_mid (smul (sigma self) t) = Inr (spec_v_new (sigma self) v_mid t)"
    using sv assms(14,15) by (simp add: tsub_ok shape_simps spec_v_new_def)
  have s12: "tadd (smul (rho self) u_new) (smul (1 - rho self) u_old) =
               Inr (spec_relax (rho self) u_new u_old)"
    using su by (simp add: tadd_ok shape_simps spec_relax_def)
  have s13: "tadd (smul (rho self) (spec_v_new (sigma self) v_mid t)) (smul (1 - rho self) v_old) =
               Inr (spec_relax (rho self) (spec_v_new (sigma self) v_mid t) v_old)"
    using sv by (simp add: tadd_ok shape_simps spec_relax_def spec_v_new_def)
  show ?thesis
    using assms(1,2)
    by (simp add: CoupledCondatVu_layer_def get_item_def as_matrix_def Let_def bind_res_Inr
        s1 s2 s3 s4 s5 s6 s7 s8 s9 s10 assms(13) s11 s12 s13)
qed

theorem CoupledCondatVu_layer_update_witness:
  "parameter_groups sample_coupled (layer_key 0) =
     Some (Map.empty(''W_coupled'' \<mapsto> Matrix (diff_operator 2), ''threshold'' \<mapsto> Scalar 1))
   \<and> 0 < sigma sample_coupled
   \<and> ncols u12 = nrows (A_t sample_coupled) \<and> nrows x11 = nrows u12
   \<and> ncols x11 = ncols (A_t sample_coupled) \<and> nrows (diff_operator 2) = ncols u12
   \<and> nrows v11 = nrows u12 \<and> ncols v11 = ncols (diff_operator 2)
   \<and> CoupledCondatVu_layer sample_ext sample_coupled x11 1 0 (u12, v11, u12, v11) =
       Inr (\<lparr>nrows = 1, ncols = 2, rows = [[11 / 5, 8 / 5]]\<rparr>,
            \<lparr>nrows = 1, ncols = 1, rows = [[- (1 / 10)]]\<rparr>,
            \<lparr>nrows = 1, ncols = 2, rows = [[11 / 5, 8 / 5]]\<rparr>,
            \<lparr>nrows = 1, ncols = 1, rows = [[- (1 / 10)]]\<rparr>)"
proof -
  let ?ps = "Map.empty(''W_coupled'' \<mapsto> Matrix (diff_operator 2), ''threshold'' \<mapsto> Scalar 1)"
  let ?un = "\<lparr>nrows = 1, ncols = 2, rows = [[11 / 5, 8 / 5]]\<rparr> :: tensor"
  let ?vm = "\<lparr>nrows = 1, ncols = 1, rows = [[- (1 / 10)]]\<rparr> :: tensor"
  let ?t = "\<lparr>nrows = 1, ncols = 1, rows = [[0]]\<rparr> :: tensor"
  have h1: "parameter_groups sample_coupled (layer_key 0) = Some ?ps"
    by (simp add: sample_coupled_def)
  have h2: "?ps ''W_coupled'' = Some (Matrix (diff_operator 2))"
    by simp
  have h3: "spec_threshold 1 ?ps = Some 1"
    by (simp add: spec_threshold_def)
  have h4: "0 < sigma sample_coupled"
    by (simp add: sample_coupled_def)
  have h5: "ncols u12 = nrows (A_t sample_coupled)" and h6: "nrows x11 = nrows u12"
    and h7: "ncols x11 = ncols (A_t sample_coupled)"
    and h8: "nrows (diff_operator 2) = ncols u12"
    and h9: "nrows v11 = nrows u12" and h10: "ncols v11 = ncols (diff_operator 2)"
    by (simp_all add: sample_coupled_def u12_def x11_def v11_def a21_def diff_operator_2)
  have f: "tau sample_coupled = 2 / 5" "sigma sample_coupled = 1 / 2" "rho sample_coupled = 1"
    "A_t sample_coupled = a21"
    by (simp_all add: sample_coupled_def)
  have h11: "?un = spec_u_new (tau sample_coupled) (A_t sample_coupled) (diff_operator 2) x11 u12 v11"
    unfolding f
    by (simp add: spec_u_new_def a21_def diff_operator_2 x11_def u12_def v11_def eval_tensor)
  have h12: "?vm = spec_v_mid (sigma sample_coupled) (diff_operator 2) ?un u12 v11"
    unfolding f
    by (simp add: spec_v_mid_def diff_operator_2 u12_def v11_def eval_tensor)
  have h13: "pseudo_soft_th_tensor sample_ext (sdiv ?vm (sigma sample_coupled)) (1 * 1)
               (1 / sigma sample_coupled) = Inr ?t"
    unfolding f
    by (simp add: sample_ext_def sdiv_def soft_th_def)
  have h14: "nrows ?t = nrows v11" and h15: "ncols ?t = ncols v11"
    by (simp_all add: v11_def)
  have r1: "spec_relax (rho sample_coupled) ?un u12 = ?un"
    unfolding f by (simp add: spec_relax_def u12_def eval_tensor)
  have r2: "spec_relax (rho sample_coupled) (spec_v_new (sigma sample_coupled) ?vm ?t) v11 = ?vm"
    unfolding f by (simp add: spec_relax_def spec_v_new_def v11_def eval_tensor)
  have e: "CoupledCondatVu_layer sample_ext sample_coupled x11 1 0 (u12, v11, u12, v11) =
             Inr (?un, ?vm, ?un, ?vm)"
    using CoupledCondatVu_layer_update [OF h1 h2 h3 h4 h5 h6 h7 h8 h9 h10 h11 h12 h13 h14 h15,
        of u12 v11]
    by (simp only: r1 r2)
  show ?thesis
    using h1 h4 h5 h6 h7 h8 h9 h10 e by blast
qed

end
